theory Spec2Isabelle
  imports Complex_Main
begin

section \<open>Numeric values and arrays\<close>

text \<open>
  The source computes with NumPy \<open>float64\<close> values. They are modelled as
  reals extended with the three non-finite values a NumPy operation can
  produce (\<open>inf\<close>, \<open>-inf\<close>, \<open>nan\<close>): NumPy does not raise on a division
  by zero, it stores \<open>nan\<close> or an infinity. The sign of zero is not
  modelled. Rounding is modelled where a property depends on it, in the
  elementwise sum of two arrays (\<open>fadd64\<close> below); the sums, products and
  quotients of the builders are taken exactly, what is said of them being
  meant up to floating-point tolerance.
\<close>

datatype npfloat = Fin real | PInf | NInf | NaN

datatype error =
    IndexError
  | ValueError
  | OverflowError
  | InconsistentAddition
  | MissingUnits
  | MissingArgument
  | UnimplementedFunctionality

fun fadd :: "npfloat \<Rightarrow> npfloat \<Rightarrow> npfloat" where
  "fadd (Fin a) (Fin b) = Fin (a + b)"
| "fadd NaN _ = NaN"
| "fadd _ NaN = NaN"
| "fadd PInf NInf = NaN"
| "fadd NInf PInf = NaN"
| "fadd PInf _ = PInf"
| "fadd _ PInf = PInf"
| "fadd NInf _ = NInf"
| "fadd _ NInf = NInf"

text \<open>
  Rounding of a real to the nearest \<open>float64\<close>, ties to the even
  significand: 53 significant bits, exponents from \<open>-1022\<close> (below it the
  spacing stays that of the subnormal numbers) and overflow to an infinity
  from \<open>2\<^sup>1\<^sup>0\<^sup>2\<^sup>4\<close> on.
\<close>

definition round_half_even :: "real \<Rightarrow> int" where
  "round_half_even x =
     (let f = \<lfloor>x\<rfloor>; r = x - real_of_int f
      in if r < 1 / 2 then f else if 1 / 2 < r then f + 1 else if even f then f else f + 1)"

definition round_float64 :: "real \<Rightarrow> npfloat" where
  "round_float64 x =
     (if x = 0 then Fin 0
      else
        let e = max \<lfloor>log 2 \<bar>x\<bar>\<rfloor> (- 1022);
            ulp = 2 powr real_of_int (e - 52);
            y = real_of_int (round_half_even (x / ulp)) * ulp
        in if 2 powr 1024 \<le> \<bar>y\<bar> then (if 0 < x then PInf else NInf) else Fin y)"

text \<open>The sum of two \<open>float64\<close> values as the machine gives it.\<close>

definition fadd64 :: "npfloat \<Rightarrow> npfloat \<Rightarrow> npfloat" where
  "fadd64 x y = (case fadd x y of Fin r \<Rightarrow> round_float64 r | z \<Rightarrow> z)"

fun fneg :: "npfloat \<Rightarrow> npfloat" where
  "fneg (Fin a) = Fin (- a)"
| "fneg PInf = NInf"
| "fneg NInf = PInf"
| "fneg NaN = NaN"

definition fsub :: "npfloat \<Rightarrow> npfloat \<Rightarrow> npfloat" where
  "fsub x y = fadd x (fneg y)"

fun fabs :: "npfloat \<Rightarrow> npfloat" where
  "fabs (Fin a) = Fin \<bar>a\<bar>"
| "fabs PInf = PInf"
| "fabs NInf = PInf"
| "fabs NaN = NaN"

fun fmul :: "npfloat \<Rightarrow> npfloat \<Rightarrow> npfloat" where
  "fmul (Fin a) (Fin b) = Fin (a * b)"
| "fmul NaN _ = NaN"
| "fmul _ NaN = NaN"
| "fmul (Fin a) PInf = (if a = 0 then NaN else if 0 < a then PInf else NInf)"
| "fmul (Fin a) NInf = (if a = 0 then NaN else if 0 < a then NInf else PInf)"
| "fmul PInf (Fin b) = (if b = 0 then NaN else if 0 < b then PInf else NInf)"
| "fmul NInf (Fin b) = (if b = 0 then NaN else if 0 < b then NInf else PInf)"
| "fmul PInf PInf = PInf"
| "fmul PInf NInf = NInf"
| "fmul NInf PInf = NInf"
| "fmul NInf NInf = PInf"

fun fdiv :: "npfloat \<Rightarrow> npfloat \<Rightarrow> npfloat" where
  "fdiv (Fin a) (Fin b) =
     (if b \<noteq> 0 then Fin (a / b)
      else if a = 0 then NaN else if 0 < a then PInf else NInf)"
| "fdiv NaN _ = NaN"
| "fdiv _ NaN = NaN"
| "fdiv (Fin a) PInf = Fin 0"
| "fdiv (Fin a) NInf = Fin 0"
| "fdiv PInf (Fin b) = (if 0 \<le> b then PInf else NInf)"
| "fdiv NInf (Fin b) = (if 0 \<le> b then NInf else PInf)"
| "fdiv PInf PInf = NaN"
| "fdiv PInf NInf = NaN"
| "fdiv NInf PInf = NaN"
| "fdiv NInf NInf = NaN"

text \<open>\<open>10 ** x\<close> and \<open>np.log10(x)\<close>, elementwise.\<close>

fun pow10 :: "npfloat \<Rightarrow> npfloat" where
  "pow10 (Fin a) = Fin (10 powr a)"
| "pow10 PInf = PInf"
| "pow10 NInf = Fin 0"
| "pow10 NaN = NaN"

fun flog10 :: "npfloat \<Rightarrow> npfloat" where
  "flog10 (Fin a) = (if 0 < a then Fin (log 10 a) else if a = 0 then NInf else NaN)"
| "flog10 PInf = PInf"
| "flog10 NInf = NaN"
| "flog10 NaN = NaN"

text \<open>The order NumPy's \<open>argmin\<close> compares with; \<open>nan\<close> is handled apart.\<close>

fun fless :: "npfloat \<Rightarrow> npfloat \<Rightarrow> bool" where
  "fless (Fin a) (Fin b) = (a < b)"
| "fless NaN _ = False"
| "fless _ NaN = False"
| "fless NInf NInf = False"
| "fless NInf _ = True"
| "fless _ NInf = False"
| "fless PInf _ = False"
| "fless _ PInf = True"

text \<open>
  \<open>int(x)\<close> of a \<open>float64\<close>: truncation towards zero; \<open>nan\<close> raises
  \<open>ValueError\<close>, an infinity raises \<open>OverflowError\<close>.
\<close>

fun py_int :: "npfloat \<Rightarrow> error + int" where
  "py_int (Fin a) = Inr (if 0 \<le> a then \<lfloor>a\<rfloor> else \<lceil>a\<rceil>)"
| "py_int NaN = Inl ValueError"
| "py_int PInf = Inl OverflowError"
| "py_int NInf = Inl OverflowError"

text \<open>\<open>np.mean([a, b])\<close>.\<close>

definition np_mean2 :: "npfloat \<Rightarrow> npfloat \<Rightarrow> npfloat" where
  "np_mean2 a b = fdiv (fadd a b) (Fin 2)"

text \<open>\<open>np.sum\<close> of a one-dimensional array; the empty sum is \<open>0.0\<close>.\<close>

definition np_sum :: "npfloat list \<Rightarrow> npfloat" where
  "np_sum xs = foldr fadd xs (Fin 0)"

text \<open>
  \<open>a.argmin()\<close>: the index of the first \<open>nan\<close> when there is one, else the
  first index holding the least value; \<open>ValueError\<close> on an empty array.
  \<open>argmin_from xs i b bi\<close> scans \<open>xs\<close>, whose head has index \<open>i\<close>, with
  the best value \<open>b\<close> so far found at index \<open>bi\<close>.
\<close>

fun argmin_from :: "npfloat list \<Rightarrow> nat \<Rightarrow> npfloat \<Rightarrow> nat \<Rightarrow> nat" where
  "argmin_from [] i b bi = bi"
| "argmin_from (x # xs) i b bi =
     (if b = NaN then bi
      else if x = NaN \<or> fless x b then argmin_from xs (Suc i) x i
      else argmin_from xs (Suc i) b bi)"

fun argmin :: "npfloat list \<Rightarrow> error + nat" where
  "argmin [] = Inl ValueError"
| "argmin (x # xs) = Inr (argmin_from xs 1 x 0)"

text \<open>
  A two-dimensional array carries its shape, so that an array with no rows
  still has a column count, as \<open>np.zeros((0, m))\<close> has.
\<close>

record ndarray2 =
  nrows :: nat
  ncols :: nat
  cells :: "npfloat list list"

definition shape :: "ndarray2 \<Rightarrow> nat \<times> nat" where
  "shape a = (nrows a, ncols a)"

definition np_zeros2 :: "nat \<Rightarrow> nat \<Rightarrow> ndarray2" where
  "np_zeros2 n m = \<lparr>nrows = n, ncols = m, cells = replicate n (replicate m (Fin 0))\<rparr>"

text \<open>\<open>a[i, j] = v\<close> for indices in range.\<close>

definition set2 :: "ndarray2 \<Rightarrow> nat \<Rightarrow> nat \<Rightarrow> npfloat \<Rightarrow> ndarray2" where
  "set2 a i j v = a\<lparr>cells := (cells a)[i := (cells a ! i)[j := v]]\<rparr>"

definition map_ndarray2 :: "(npfloat \<Rightarrow> npfloat) \<Rightarrow> ndarray2 \<Rightarrow> ndarray2" where
  "map_ndarray2 f a = a\<lparr>cells := map (map f) (cells a)\<rparr>"

text \<open>\<open>np.sum(a)\<close>, \<open>np.sum(a, axis=1)\<close> (one sum per row) and
  \<open>np.sum(a, axis=0)\<close> (one sum per column).\<close>

definition np_sum2 :: "ndarray2 \<Rightarrow> npfloat" where
  "np_sum2 a = np_sum (map np_sum (cells a))"

definition np_sum_axis1 :: "ndarray2 \<Rightarrow> npfloat list" where
  "np_sum_axis1 a = map np_sum (cells a)"

definition np_sum_axis0 :: "ndarray2 \<Rightarrow> npfloat list" where
  "np_sum_axis0 a = map (\<lambda>j. np_sum (map (\<lambda>r. r ! j) (cells a))) [0..<ncols a]"

text \<open>
  \<open>a + b\<close> for two arrays of one shape: a new array, each element the
  rounded sum of the two.
\<close>

definition add_ndarray2 :: "ndarray2 \<Rightarrow> ndarray2 \<Rightarrow> ndarray2" where
  "add_ndarray2 a b = a\<lparr>cells := map2 (map2 fadd64) (cells a) (cells b)\<rparr>"

text \<open>
  The elementwise sum without rounding, against which \<open>add_ndarray2\<close> is
  compared: the two agree when no element of the sum is rounded.
\<close>

definition add_ndarray2_exact :: "ndarray2 \<Rightarrow> ndarray2 \<Rightarrow> ndarray2" where
  "add_ndarray2_exact a b = a\<lparr>cells := map2 (map2 fadd) (cells a) (cells b)\<rparr>"


section \<open>The parametric stellar population (\<open>parametric/stars.py\<close>)\<close>

text \<open>
  \<open>len(set(a))\<close> for a one-dimensional array: equal values count once, but
  every \<open>nan\<close> counts, since \<open>nan\<close> is equal to nothing.
\<close>

definition py_set_len :: "npfloat list \<Rightarrow> nat" where
  "py_set_len xs =
     length (remdups (filter (\<lambda>x. x \<noteq> NaN) xs)) + length (filter (\<lambda>x. x = NaN) xs)"

text \<open>\<open>a[:-1] - a[1:]\<close>.\<close>

definition step_diffs :: "npfloat list \<Rightarrow> npfloat list" where
  "step_diffs xs = map2 fsub (butlast xs) (tl xs)"

text \<open>
  The attributes \<open>Stars.__init__\<close> sets. The optional \<open>morphology\<close>,
  \<open>sf_hist_func\<close> and \<open>metal_hist_func\<close> are stored for display only and
  are left out.
\<close>

record Stars =
  log10ages :: "npfloat list"
  ages :: "npfloat list"
  log10ages_lims :: "npfloat list"
  metallicities :: "npfloat list"
  metallicities_lims :: "npfloat list"
  log10metallicities :: "npfloat list"
  log10metallicities_lims :: "npfloat list"
  sfzh :: ndarray2
  sf_hist :: "npfloat list"
  metal_hist :: "npfloat list"
  metallicity_grid :: "string option"

text \<open>
  \<open>Stars.__init__(log10ages, metallicities, sfzh)\<close>. The only statements
  that can raise are the reads \<open>self.log10ages[0]\<close> and
  \<open>self.metallicities[0]\<close> of an empty array; the shape of \<open>sfzh\<close> is not
  compared with anything.
\<close>

definition Stars_init :: "npfloat list \<Rightarrow> npfloat list \<Rightarrow> ndarray2 \<Rightarrow> error + Stars" where
  "Stars_init l10a mets d =
     (if l10a = [] then Inl IndexError
      else if mets = [] then Inl IndexError
      else
        let lmets = map flog10 mets in
        Inr \<lparr>log10ages = l10a,
             ages = map pow10 l10a,
             log10ages_lims = [hd l10a, last l10a],
             metallicities = mets,
             metallicities_lims = [hd mets, last mets],
             log10metallicities = lmets,
             log10metallicities_lims = [hd lmets, last lmets],
             sfzh = d,
             sf_hist = np_sum_axis1 d,
             metal_hist = np_sum_axis0 d,
             metallicity_grid =
               (if py_set_len (step_diffs mets) = 1 then Some ''Z''
                else if py_set_len (step_diffs lmets) = 1 then Some ''log10Z''
                else None)\<rparr>)"

text \<open>\<open>(np.abs(a - x)).argmin()\<close>.\<close>

definition nearest_index :: "npfloat list \<Rightarrow> npfloat \<Rightarrow> error + nat" where
  "nearest_index xs x = argmin (map (\<lambda>a. fabs (fsub a x)) xs)"

definition generate_instant_sfzh ::
  "npfloat list \<Rightarrow> npfloat list \<Rightarrow> npfloat \<Rightarrow> npfloat \<Rightarrow> npfloat \<Rightarrow> error + Stars" where
  "generate_instant_sfzh l10a mets log10age metallicity stellar_mass =
     (let z = np_zeros2 (length l10a) (length mets) in
      case nearest_index l10a log10age of
        Inl e \<Rightarrow> Inl e
      | Inr ia \<Rightarrow>
          (case nearest_index mets metallicity of
             Inl e \<Rightarrow> Inl e
           | Inr iZ \<Rightarrow> Stars_init l10a mets (set2 z ia iZ stellar_mass)))"

text \<open>
  \<open>integrate.quad\<close> is SciPy's: the model takes, for the star formation
  history at hand, the function \<open>q\<close> with \<open>q lo hi\<close> the value of
  \<open>integrate.quad(sf_hist.sfr, lo, hi)[0]\<close>. The bounds are Python integers:
  \<open>0\<close> and the results of \<open>int(...)\<close>.
\<close>

type_synonym sfr_quad = "int \<Rightarrow> int \<Rightarrow> npfloat"

text \<open>
  The loop of \<open>generate_sf_hist\<close> over \<open>enumerate(ages[:-1])\<close>: the list
  argument is what is left of \<open>ages\<close> from index \<open>ia\<close> on.
\<close>

fun sf_hist_loop ::
  "sfr_quad \<Rightarrow> npfloat list \<Rightarrow> nat \<Rightarrow> int \<Rightarrow> npfloat list \<Rightarrow> error + npfloat list" where
  "sf_hist_loop q (age # nxt # rest) ia min_age h =
     (case py_int (np_mean2 nxt age) of
        Inl e \<Rightarrow> Inl e
      | Inr max_age \<Rightarrow>
          sf_hist_loop q (nxt # rest) (Suc ia) max_age (h[ia := q min_age max_age]))"
| "sf_hist_loop q _ ia min_age h = Inr h"

text \<open>
  \<open>generate_sf_hist\<close> up to its loop: \<open>SF_HIST\<close> before it is normalised.
\<close>

definition sf_hist_weights :: "npfloat list \<Rightarrow> sfr_quad \<Rightarrow> bool \<Rightarrow> error + npfloat list" where
  "sf_hist_weights ags q log10 =
     (let ags' = (if log10 then map pow10 ags else ags) in
      sf_hist_loop q ags' 0 0 (replicate (length ags') (Fin 0)))"

text \<open>\<open>SF_HIST /= np.sum(SF_HIST)\<close> and the return.\<close>

definition generate_sf_hist :: "npfloat list \<Rightarrow> sfr_quad \<Rightarrow> bool \<Rightarrow> error + npfloat list" where
  "generate_sf_hist ags q log10 =
     (case sf_hist_weights ags q log10 of
        Inl e \<Rightarrow> Inl e
      | Inr h \<Rightarrow> Inr (map (\<lambda>x. fdiv x (np_sum h)) h))"

text \<open>
  The metallicity history object: its \<open>dist\<close> attribute and its method
  \<open>Z(age)\<close>.
\<close>

record ZDist =
  dist_type :: string
  Z :: "npfloat \<Rightarrow> npfloat"

text \<open>The loop of \<open>generate_sfzh\<close>, taken when \<open>metal_hist.dist == "delta"\<close>.\<close>

fun sfzh_loop ::
  "sfr_quad \<Rightarrow> (npfloat \<Rightarrow> npfloat) \<Rightarrow> npfloat list \<Rightarrow> npfloat list \<Rightarrow> nat \<Rightarrow> int \<Rightarrow>
     ndarray2 \<Rightarrow> error + ndarray2" where
  "sfzh_loop q zf mets (age # nxt # rest) ia min_age z =
     (case py_int (np_mean2 nxt age) of
        Inl e \<Rightarrow> Inl e
      | Inr max_age \<Rightarrow>
          (case nearest_index mets (zf age) of
             Inl e \<Rightarrow> Inl e
           | Inr iZ \<Rightarrow>
               sfzh_loop q zf mets (nxt # rest) (Suc ia) max_age
                 (set2 z ia iZ (q min_age max_age))))"
| "sfzh_loop q zf mets _ ia min_age z = Inr z"

text \<open>
  Lines 211 to 225 of \<open>generate_sfzh\<close>: the array before it is normalised.
  For \<open>metal_hist.dist == "dist"\<close> the source prints
  \<open>WARNING: NOT YET IMPLEMENTED\<close> and goes on with the array of zeros, as
  it does for any other value of \<open>dist\<close>.
\<close>

definition sfzh_weights ::
  "sfr_quad \<Rightarrow> npfloat list \<Rightarrow> npfloat list \<Rightarrow> ZDist \<Rightarrow> error + ndarray2" where
  "sfzh_weights q l10a mets mh =
     (let ags = map pow10 l10a;
          z = np_zeros2 (length l10a) (length mets) in
      if dist_type mh = ''delta'' then sfzh_loop q (Z mh) mets ags 0 0 z else Inr z)"

text \<open>\<open>sfzh /= np.sum(sfzh); sfzh *= stellar_mass\<close>.\<close>

definition normalise :: "ndarray2 \<Rightarrow> npfloat \<Rightarrow> ndarray2" where
  "normalise z stellar_mass =
     (let tot = np_sum2 z;
          z1 = map_ndarray2 (\<lambda>x. fdiv x tot) z in
      map_ndarray2 (\<lambda>x. fmul x stellar_mass) z1)"

definition generate_sfzh ::
  "npfloat list \<Rightarrow> npfloat list \<Rightarrow> sfr_quad \<Rightarrow> ZDist \<Rightarrow> npfloat \<Rightarrow> error + Stars" where
  "generate_sfzh l10a mets q mh stellar_mass =
     (case sfzh_weights q l10a mets mh of
        Inl e \<Rightarrow> Inl e
      | Inr z \<Rightarrow> Stars_init l10a mets (normalise z stellar_mass))"

text \<open>
  \<open>Stars.__add__\<close>: the shapes of the two densities are compared, nothing
  else; the sum is a new array and the result a new object on the bins of
  the left operand.
\<close>

definition Stars_add :: "Stars \<Rightarrow> Stars \<Rightarrow> error + Stars" where
  "Stars_add self second_sfzh =
     (if shape (sfzh second_sfzh) = shape (sfzh self) then
        let new_sfzh = add_ndarray2 (sfzh self) (sfzh second_sfzh) in
        Stars_init (log10ages self) (metallicities self) new_sfzh
      else Inl InconsistentAddition)"

text \<open>
  Objects live in a store: \<open>objs\<close> maps a reference to the object it
  names and \<open>fresh\<close> is the next reference to hand out, one that names no
  object yet. Creating an object is the only way \<open>Stars.__add__\<close> touches
  the store.
\<close>

record store =
  objs :: "nat \<rightharpoonup> Stars"
  fresh :: nat

definition new_object :: "store \<Rightarrow> Stars \<Rightarrow> nat \<times> store" where
  "new_object st s = (fresh st, st\<lparr>objs := (objs st)(fresh st \<mapsto> s), fresh := Suc (fresh st)\<rparr>)"

text \<open>\<open>self + second_sfzh\<close> on references to two live objects.\<close>

definition Stars_add_refs :: "store \<Rightarrow> nat \<Rightarrow> nat \<Rightarrow> (error + nat) \<times> store" where
  "Stars_add_refs st self second_sfzh =
     (case Stars_add (the (objs st self)) (the (objs st second_sfzh)) of
        Inl e \<Rightarrow> (Inl e, st)
      | Inr s \<Rightarrow> (case new_object st s of (r, st') \<Rightarrow> (Inr r, st')))"


section \<open>The template emission model (\<open>emission_models/agn/models.py\<close>)\<close>

text \<open>
  An argument \<open>lam\<close> or \<open>lnu\<close> is \<open>None\<close>, a \<open>unyt_array\<close> (values with a
  unit) or anything else, which \<open>isinstance(x, unyt_array)\<close> rejects.
\<close>

datatype pyarr = RawArray "npfloat list" | UnytArray "npfloat list" string

fun is_unyt_array :: "pyarr \<Rightarrow> bool" where
  "is_unyt_array (UnytArray _ _) = True"
| "is_unyt_array (RawArray _) = False"

text \<open>
  \<open>EmissionModel\<close> and \<open>Sed\<close> are defined outside the files at hand. The
  outcome of \<open>EmissionModel.__init__\<close> is an argument of the model, and so
  are the operations of \<open>Sed\<close> that \<open>Template.__init__\<close> uses: the
  constructor, \<open>measure_bolometric_luminosity()\<close> (its \<open>.value\<close>) and the
  in-place division of \<open>sed.lnu\<close>.
\<close>

record 'sed sed_class =
  Sed_new :: "pyarr \<Rightarrow> pyarr \<Rightarrow> error + 'sed"
  measure_bolometric_luminosity :: "'sed \<Rightarrow> error + npfloat"
  divide_lnu :: "'sed \<Rightarrow> npfloat \<Rightarrow> 'sed"

record ('base, 'sed) Template =
  base :: 'base
  sed :: 'sed
  normalisation :: npfloat
  is_template :: bool

text \<open>The calls \<open>Template.__init__\<close> makes to outside code, in order.\<close>

datatype call = Call_EmissionModel_init | Call_Sed | Call_measure_bolometric_luminosity

text \<open>\<open>if filename:\<close> holds for a string that is not empty.\<close>

fun truthy :: "string option \<Rightarrow> bool" where
  "truthy None = False"
| "truthy (Some s) = (s \<noteq> [])"

definition Template_init ::
  "'sed sed_class \<Rightarrow> error + 'base \<Rightarrow> string option \<Rightarrow> pyarr option \<Rightarrow> pyarr option \<Rightarrow>
     (error + ('base, 'sed) Template) \<times> call list" where
  "Template_init S base_init filename lam lnu =
     (case base_init of
        Inl e \<Rightarrow> (Inl e, [Call_EmissionModel_init])
      | Inr b \<Rightarrow>
          if lam \<noteq> None \<and> \<not> is_unyt_array (the lam) then
            (Inl MissingUnits, [Call_EmissionModel_init])
          else if lnu \<noteq> None \<and> \<not> is_unyt_array (the lnu) then
            (Inl MissingUnits, [Call_EmissionModel_init])
          else if truthy filename then
            (Inl UnimplementedFunctionality, [Call_EmissionModel_init])
          else if lam \<noteq> None \<and> lnu \<noteq> None then
            (case Sed_new S (the lam) (the lnu) of
               Inl e \<Rightarrow> (Inl e, [Call_EmissionModel_init, Call_Sed])
             | Inr s \<Rightarrow>
                 (case measure_bolometric_luminosity S s of
                    Inl e \<Rightarrow>
                      (Inl e,
                       [Call_EmissionModel_init, Call_Sed, Call_measure_bolometric_luminosity])
                  | Inr v \<Rightarrow>
                      (Inr \<lparr>base = b, sed = divide_lnu S s v, normalisation = v,
                            is_template = True\<rparr>,
                       [Call_EmissionModel_init, Call_Sed, Call_measure_bolometric_luminosity])))
          else (Inl MissingArgument, [Call_EmissionModel_init]))"


section \<open>Arithmetic of the extended reals\<close>

lemma fadd_zero_left [simp]: "fadd (Fin 0) x = x"
  by (cases x) simp_all

lemma fadd_zero_right [simp]: "fadd x (Fin 0) = x"
  by (cases x) simp_all

lemma fadd_commute: "fadd x y = fadd y x"
  by (cases x; cases y) simp_all

lemma fadd_assoc: "fadd (fadd x y) z = fadd x (fadd y z)"
  by (cases x; cases y; cases z) simp_all

lemma np_sum_Nil [simp]: "np_sum [] = Fin 0"
  by (simp add: np_sum_def)

lemma np_sum_Cons [simp]: "np_sum (x # xs) = fadd x (np_sum xs)"
  by (simp add: np_sum_def)

lemma np_sum_replicate_zero [simp]: "np_sum (replicate k (Fin 0)) = Fin 0"
  by (induction k) simp_all

lemma np_sum_update_zeros: "j < k \<Longrightarrow> np_sum ((replicate k (Fin 0))[j := v]) = v"
proof (induction k arbitrary: j)
  case 0
  then show ?case by simp
next
  case (Suc k)
  then show ?case by (cases j) simp_all
qed

lemma np_sum2_set2_zeros:
  assumes "i < n" and "j < m"
  shows "np_sum2 (set2 (np_zeros2 n m) i j v) = v"
proof -
  have "map np_sum ((replicate n (replicate m (Fin 0)))[i := (replicate m (Fin 0))[j := v]])
        = (replicate n (Fin 0))[i := v]"
    using assms by (simp add: map_update np_sum_update_zeros)
  then show ?thesis
    using assms by (simp add: np_sum2_def set2_def np_zeros2_def np_sum_update_zeros)
qed

section \<open>\<open>argmin\<close> on finite values\<close>

text \<open>
  With \<open>pre\<close> the part of the array already scanned and \<open>b\<close> its least
  value, first found at \<open>bi\<close>, the scan of the rest returns the first
  index of the least value of the whole array.
\<close>

lemma argmin_from_correct:
  assumes "bi < length pre" and "pre ! bi = b"
    and "\<forall>k<length pre. b \<le> pre ! k" and "\<forall>k<bi. b < pre ! k"
  shows "argmin_from (map Fin xs) (length pre) (Fin b) bi < length (pre @ xs) \<and>
         (\<forall>k<length (pre @ xs).
            (pre @ xs) ! argmin_from (map Fin xs) (length pre) (Fin b) bi \<le> (pre @ xs) ! k) \<and>
         (\<forall>k<argmin_from (map Fin xs) (length pre) (Fin b) bi.
            (pre @ xs) ! argmin_from (map Fin xs) (length pre) (Fin b) bi < (pre @ xs) ! k)"
  using assms
proof (induction xs arbitrary: pre b bi)
  case Nil
  then show ?case by simp
next
  case (Cons x xs)
  show ?case
  proof (cases "x < b")
    case True
    have a1: "length pre < length (pre @ [x])" by simp
    have a2: "(pre @ [x]) ! length pre = x" by simp
    have a3: "\<forall>k<length (pre @ [x]). x \<le> (pre @ [x]) ! k"
      using Cons.prems(3) True by (auto simp: nth_append less_Suc_eq)
    have a4: "\<forall>k<length pre. x < (pre @ [x]) ! k"
      using Cons.prems(3) True by (auto simp: nth_append)
    from Cons.IH [OF a1 a2 a3 a4] True show ?thesis by simp
  next
    case False
    have a1: "bi < length (pre @ [x])" using Cons.prems(1) by simp
    have a2: "(pre @ [x]) ! bi = b" using Cons.prems(1,2) by (simp add: nth_append)
    have a3: "\<forall>k<length (pre @ [x]). b \<le> (pre @ [x]) ! k"
      using Cons.prems(3) False by (auto simp: nth_append less_Suc_eq)
    have a4: "\<forall>k<bi. b < (pre @ [x]) ! k"
      using Cons.prems(1,4) by (auto simp: nth_append)
    from Cons.IH [OF a1 a2 a3 a4] False show ?thesis by simp
  qed
qed

lemma argmin_Fin:
  assumes "rs \<noteq> []"
  shows "\<exists>i. argmin (map Fin rs) = Inr i \<and> i < length rs \<and>
           (\<forall>k<length rs. rs ! i \<le> rs ! k) \<and> (\<forall>k<i. rs ! i < rs ! k)"
proof -
  from assms obtain x xs where rs: "rs = x # xs" by (cases rs) auto
  have "argmin_from (map Fin xs) (length [x]) (Fin x) 0 < length ([x] @ xs) \<and>
         (\<forall>k<length ([x] @ xs).
            ([x] @ xs) ! argmin_from (map Fin xs) (length [x]) (Fin x) 0 \<le> ([x] @ xs) ! k) \<and>
         (\<forall>k<argmin_from (map Fin xs) (length [x]) (Fin x) 0.
            ([x] @ xs) ! argmin_from (map Fin xs) (length [x]) (Fin x) 0 < ([x] @ xs) ! k)"
    by (rule argmin_from_correct) simp_all
  then show ?thesis by (simp add: rs)
qed

lemma nearest_index_Fin:
  assumes "rs \<noteq> []"
  shows "\<exists>i. nearest_index (map Fin rs) (Fin a) = Inr i \<and> i < length rs \<and>
           (\<forall>k<length rs. \<bar>rs ! i - a\<bar> \<le> \<bar>rs ! k - a\<bar>) \<and>
           (\<forall>k<i. \<bar>rs ! i - a\<bar> < \<bar>rs ! k - a\<bar>)"
proof -
  have eq: "map (\<lambda>x. fabs (fsub x (Fin a))) (map Fin rs) = map Fin (map (\<lambda>r. \<bar>r - a\<bar>) rs)"
    by (simp add: fsub_def)
  from assms have "map (\<lambda>r. \<bar>r - a\<bar>) rs \<noteq> []" by simp
  from argmin_Fin [OF this] show ?thesis
    unfolding nearest_index_def eq by auto
qed

section \<open>The single-bin builder\<close>

text \<open>
  Claim C4. For non-empty arrays of finite age and metallicity bins and a
  finite target age and metallicity, \<open>generate_instant_sfzh\<close> returns a
  population whose density has the shape of the two bin arrays and is zero
  in every bin but one, which holds the whole mass: the bin at the age index
  and the metallicity index whose bin values are nearest, by absolute
  difference, to the targets. The sum of the density is the mass.
\<close>

theorem generate_instant_sfzh_single_bin:
  assumes "as \<noteq> []" and "zs \<noteq> []"
  shows "\<exists>s ia iZ.
           generate_instant_sfzh (map Fin as) (map Fin zs) (Fin a) (Fin z) m = Inr s \<and>
           ia < length as \<and> iZ < length zs \<and>
           (\<forall>k<length as. \<bar>as ! ia - a\<bar> \<le> \<bar>as ! k - a\<bar>) \<and>
           (\<forall>k<length zs. \<bar>zs ! iZ - z\<bar> \<le> \<bar>zs ! k - z\<bar>) \<and>
           shape (sfzh s) = (length as, length zs) \<and>
           (\<forall>i<length as. \<forall>j<length zs.
              cells (sfzh s) ! i ! j = (if i = ia \<and> j = iZ then m else Fin 0)) \<and>
           np_sum2 (sfzh s) = m"
proof -
  from nearest_index_Fin [OF assms(1), of a] obtain ia where
    ia: "nearest_index (map Fin as) (Fin a) = Inr ia" "ia < length as"
        "\<forall>k<length as. \<bar>as ! ia - a\<bar> \<le> \<bar>as ! k - a\<bar>"
    by blast
  from nearest_index_Fin [OF assms(2), of z] obtain iZ where
    iZ: "nearest_index (map Fin zs) (Fin z) = Inr iZ" "iZ < length zs"
        "\<forall>k<length zs. \<bar>zs ! iZ - z\<bar> \<le> \<bar>zs ! k - z\<bar>"
    by blast
  let ?d = "set2 (np_zeros2 (length as) (length zs)) ia iZ m"
  from assms obtain s where
    s: "Stars_init (map Fin as) (map Fin zs) ?d = Inr s" and d: "sfzh s = ?d"
    by (auto simp: Stars_init_def Let_def)
  have g: "generate_instant_sfzh (map Fin as) (map Fin zs) (Fin a) (Fin z) m = Inr s"
    by (simp add: generate_instant_sfzh_def ia(1) iZ(1) s)
  have sh: "shape (sfzh s) = (length as, length zs)"
    by (simp add: d shape_def set2_def np_zeros2_def)
  have ce: "\<forall>i<length as. \<forall>j<length zs.
              cells (sfzh s) ! i ! j = (if i = ia \<and> j = iZ then m else Fin 0)"
    using ia(2) iZ(2) by (auto simp: d set2_def np_zeros2_def nth_list_update)
  have su: "np_sum2 (sfzh s) = m"
    using ia(2) iZ(2) by (simp add: d np_sum2_set2_zeros)
  from g ia(2,3) iZ(2,3) sh ce su show ?thesis by blast
qed

theorem generate_instant_sfzh_single_bin_witness:
  "\<exists>s ia iZ.
     generate_instant_sfzh (map Fin [6, 7, 8]) (map Fin [1 / 100, 1 / 50]) (Fin (36 / 5))
       (Fin (9 / 500)) (Fin 5) = Inr s \<and>
     ia < length [6, 7, 8 :: real] \<and> iZ < length [1 / 100, 1 / 50 :: real] \<and>
     (\<forall>k<length [6, 7, 8 :: real].
        \<bar>[6, 7, 8 :: real] ! ia - 36 / 5\<bar> \<le> \<bar>[6, 7, 8 :: real] ! k - 36 / 5\<bar>) \<and>
     (\<forall>k<length [1 / 100, 1 / 50 :: real].
        \<bar>[1 / 100, 1 / 50 :: real] ! iZ - 9 / 500\<bar>
          \<le> \<bar>[1 / 100, 1 / 50 :: real] ! k - 9 / 500\<bar>) \<and>
     shape (sfzh s) = (length [6, 7, 8 :: real], length [1 / 100, 1 / 50 :: real]) \<and>
     (\<forall>i<length [6, 7, 8 :: real]. \<forall>j<length [1 / 100, 1 / 50 :: real].
        cells (sfzh s) ! i ! j = (if i = ia \<and> j = iZ then Fin 5 else Fin 0)) \<and>
     np_sum2 (sfzh s) = Fin 5"
proof -
  have h1: "[6, 7, 8 :: real] \<noteq> []" by simp
  have h2: "[1 / 100, 1 / 50 :: real] \<noteq> []" by simp
  show ?thesis
    by (rule generate_instant_sfzh_single_bin [OF h1 h2])
qed

section \<open>Construction from arrays\<close>

text \<open>
  Claim C7, as the code has it. \<open>Stars.__init__\<close> never compares the
  dimensions of the density with the lengths of the bin arrays. Whenever
  both bin arrays are non-empty it succeeds, whatever the shape of the
  density, and stores the density as given with its row and column sums;
  when a bin array is empty it fails with \<open>IndexError\<close>.
\<close>

theorem Stars_init_succeeds_iff_bins_nonempty:
  "(l10a \<noteq> [] \<and> mets \<noteq> [] \<longrightarrow>
      (\<exists>s. Stars_init l10a mets d = Inr s \<and> log10ages s = l10a \<and> metallicities s = mets \<and>
           sfzh s = d \<and> sf_hist s = np_sum_axis1 d \<and> metal_hist s = np_sum_axis0 d)) \<and>
   (l10a = [] \<or> mets = [] \<longrightarrow> Stars_init l10a mets d = Inl IndexError)"
  by (auto simp: Stars_init_def Let_def)

theorem Stars_init_succeeds_iff_bins_nonempty_witness:
  "(\<exists>s. Stars_init [Fin 6, Fin 7] [Fin (1 / 100), Fin (1 / 50)] (np_zeros2 3 5) = Inr s \<and>
        log10ages s = [Fin 6, Fin 7] \<and> metallicities s = [Fin (1 / 100), Fin (1 / 50)] \<and>
        sfzh s = np_zeros2 3 5 \<and> sf_hist s = np_sum_axis1 (np_zeros2 3 5) \<and>
        metal_hist s = np_sum_axis0 (np_zeros2 3 5)) \<and>
   Stars_init [] [Fin (1 / 100), Fin (1 / 50)] (np_zeros2 0 2) = Inl IndexError"
  using Stars_init_succeeds_iff_bins_nonempty
          [of "[Fin 6, Fin 7]" "[Fin (1 / 100), Fin (1 / 50)]" "np_zeros2 3 5"]
        Stars_init_succeeds_iff_bins_nonempty
          [of "[]" "[Fin (1 / 100), Fin (1 / 50)]" "np_zeros2 0 2"]
  by simp

text \<open>
  The claim as written fails: a density of shape \<open>(3, 5)\<close> on two age bins
  and two metallicity bins is accepted.
\<close>

theorem Stars_init_shape_counterexample:
  "shape (np_zeros2 3 5) \<noteq> (length [Fin 6, Fin 7], length [Fin (1 / 100), Fin (1 / 50)]) \<and>
   \<not> isl (Stars_init [Fin 6, Fin 7] [Fin (1 / 100), Fin (1 / 50)] (np_zeros2 3 5))"
  by (simp add: Stars_init_def shape_def np_zeros2_def Let_def)

section \<open>The analytic builder on a distributed metallicity history\<close>

text \<open>
  Claim C1 asks for an \<open>UnimplementedFunctionality\<close> error when
  \<open>metal_hist.dist\<close> is \<open>"dist"\<close>. The code returns a population instead:
  the array of zeros divided by its sum, zero, is \<open>nan\<close> in every bin.
\<close>

theorem generate_sfzh_dist_returns_nan:
  "\<not> isl (generate_sfzh [Fin 6, Fin 7] [Fin (1 / 100), Fin (1 / 50)]
            (\<lambda>lo hi. Fin (real_of_int (hi - lo)))
            \<lparr>dist_type = ''dist'', Z = (\<lambda>age. Fin (1 / 100))\<rparr> (Fin 1)) \<and>
   cells (sfzh (projr (generate_sfzh [Fin 6, Fin 7] [Fin (1 / 100), Fin (1 / 50)]
            (\<lambda>lo hi. Fin (real_of_int (hi - lo)))
            \<lparr>dist_type = ''dist'', Z = (\<lambda>age. Fin (1 / 100))\<rparr> (Fin 1))))
     = [[NaN, NaN], [NaN, NaN]]"
  by (simp add: generate_sfzh_def sfzh_weights_def Stars_init_def normalise_def np_zeros2_def
      map_ndarray2_def np_sum2_def Let_def)

section \<open>Construction of a template\<close>

text \<open>
  Claim C8. When \<open>EmissionModel.__init__\<close> has returned and \<open>lam\<close> or
  \<open>lnu\<close> is given without units (it is not a \<open>unyt_array\<close>),
  \<open>Template.__init__\<close> raises \<open>MissingUnits\<close>, whatever the file name and
  whatever \<open>Sed\<close> would do: the only outside call made is the one to
  \<open>EmissionModel.__init__\<close>, so no \<open>Sed\<close> has been built.
\<close>

theorem Template_unitless_raises_MissingUnits:
  assumes "base_init = Inr b"
    and "(\<exists>xs. lam = Some (RawArray xs)) \<or> (\<exists>xs. lnu = Some (RawArray xs))"
  shows "Template_init S base_init filename lam lnu
           = (Inl MissingUnits, [Call_EmissionModel_init])"
  using assms by (auto simp: Template_init_def)

theorem Template_unitless_raises_MissingUnits_witness:
  "Template_init
     \<lparr>Sed_new = (\<lambda>l n. Inr (l, n)), measure_bolometric_luminosity = (\<lambda>s. Inr (Fin 1)),
      divide_lnu = (\<lambda>s v. s)\<rparr>
     (Inr ()) None (Some (UnytArray [Fin 1] ''angstrom'')) (Some (RawArray [Fin 2]))
   = (Inl MissingUnits, [Call_EmissionModel_init])"
  using Template_unitless_raises_MissingUnits
          [of "Inr ()" "()" "Some (UnytArray [Fin 1] ''angstrom'')" "Some (RawArray [Fin 2])"]
  by simp

text \<open>
  Claim C9, as the code has it. When \<open>EmissionModel.__init__\<close> has
  returned, no file name is given (it is \<open>None\<close> or empty), \<open>lam\<close> and
  \<open>lnu\<close> are not both given, and the one that may be given carries units,
  \<open>Template.__init__\<close> raises \<open>MissingArgument\<close>; no \<open>Sed\<close> has been built
  and no template is returned.
\<close>

theorem Template_missing_data_raises_MissingArgument:
  assumes "base_init = Inr b"
    and "\<not> truthy filename"
    and "lam = None \<or> lnu = None"
    and "lam = None \<or> is_unyt_array (the lam)"
    and "lnu = None \<or> is_unyt_array (the lnu)"
  shows "Template_init S base_init filename lam lnu
           = (Inl MissingArgument, [Call_EmissionModel_init])"
  using assms by (auto simp: Template_init_def)

theorem Template_missing_data_raises_MissingArgument_witness:
  "Template_init
     \<lparr>Sed_new = (\<lambda>l n. Inr (l, n)), measure_bolometric_luminosity = (\<lambda>s. Inr (Fin 1)),
      divide_lnu = (\<lambda>s v. s)\<rparr>
     (Inr ()) None (Some (UnytArray [Fin 1] ''angstrom'')) None
   = (Inl MissingArgument, [Call_EmissionModel_init])"
  using Template_missing_data_raises_MissingArgument
          [of "Inr ()" "()" None "Some (UnytArray [Fin 1] ''angstrom'')" None]
  by simp

text \<open>
  The claim as written fails when the array that is given has no units: the
  check for units comes first and raises \<open>MissingUnits\<close>.
\<close>

theorem Template_missing_data_counterexample:
  "fst (Template_init
         \<lparr>Sed_new = (\<lambda>l n. Inr (l, n)), measure_bolometric_luminosity = (\<lambda>s. Inr (Fin 1)),
          divide_lnu = (\<lambda>s v. s)\<rparr>
         (Inr ()) None (Some (RawArray [Fin 1])) None)
     \<noteq> Inl MissingArgument"
  by (simp add: Template_init_def)

section \<open>Addition of populations\<close>

lemma fadd64_commute: "fadd64 x y = fadd64 y x"
  by (simp add: fadd64_def fadd_commute [of x y])

lemma map2_commute:
  assumes "\<And>x y. f x y = f y x"
  shows "map2 f xs ys = map2 f ys xs"
proof (induction xs arbitrary: ys)
  case Nil
  then show ?case by simp
next
  case (Cons x xs)
  then show ?case by (cases ys) (simp_all add: assms [of x])
qed

lemma map2_fadd_assoc: "map2 fadd (map2 fadd xs ys) zs = map2 fadd xs (map2 fadd ys zs)"
proof (induction xs arbitrary: ys zs)
  case Nil
  then show ?case by simp
next
  case (Cons x xs)
  then show ?case by (cases ys; cases zs) (simp_all add: fadd_assoc)
qed

lemma map2_rows_commute: "map2 (map2 fadd64) xs ys = map2 (map2 fadd64) ys xs"
  by (rule map2_commute) (rule map2_commute, rule fadd64_commute)

lemma map2_rows_assoc:
  "map2 (map2 fadd) (map2 (map2 fadd) xs ys) zs = map2 (map2 fadd) xs (map2 (map2 fadd) ys zs)"
proof (induction xs arbitrary: ys zs)
  case Nil
  then show ?case by simp
next
  case (Cons x xs)
  then show ?case by (cases ys; cases zs) (simp_all add: map2_fadd_assoc)
qed

lemma add_ndarray2_commute:
  "shape b = shape a \<Longrightarrow> add_ndarray2 a b = add_ndarray2 b a"
  by (simp add: add_ndarray2_def shape_def map2_rows_commute [of "cells a" "cells b"])

lemma add_ndarray2_exact_assoc:
  "add_ndarray2_exact (add_ndarray2_exact a b) c = add_ndarray2_exact a (add_ndarray2_exact b c)"
  by (simp add: add_ndarray2_exact_def map2_rows_assoc)

lemma shape_add_ndarray2 [simp]: "shape (add_ndarray2 a b) = shape a"
  by (simp add: add_ndarray2_def shape_def)

lemma Stars_init_Inr:
  "Stars_init l m d = Inr s \<Longrightarrow> log10ages s = l \<and> metallicities s = m \<and> sfzh s = d"
  by (auto simp: Stars_init_def Let_def split: if_splits)

lemma Stars_init_ok: "l \<noteq> [] \<Longrightarrow> m \<noteq> [] \<Longrightarrow> \<exists>s. Stars_init l m d = Inr s"
  by (simp add: Stars_init_def Let_def)

lemma Stars_add_eq:
  "shape (sfzh b) = shape (sfzh a) \<Longrightarrow>
   Stars_add a b = Stars_init (log10ages a) (metallicities a) (add_ndarray2 (sfzh a) (sfzh b))"
  by (simp add: Stars_add_def Let_def)

text \<open>How \<open>round_float64\<close> is computed once the binary exponent is known.\<close>

lemma round_float64_eval:
  assumes "2 powr real_of_int e \<le> \<bar>x\<bar>" and "\<bar>x\<bar> < 2 powr real_of_int (e + 1)"
    and "- 1022 \<le> e"
  shows "round_float64 x =
           (let ulp = 2 powr real_of_int (e - 52);
                y = real_of_int (round_half_even (x / ulp)) * ulp
            in if 2 powr 1024 \<le> \<bar>y\<bar> then (if 0 < x then PInf else NInf) else Fin y)"
proof -
  have pos: "0 < \<bar>x\<bar>"
    using assms(1) by (smt (verit) powr_gt_zero)
  then have nz: "x \<noteq> 0" by simp
  have "\<lfloor>log 2 \<bar>x\<bar>\<rfloor> = e"
    using assms(1,2) pos by (simp add: floor_log_eq_powr_iff)
  with assms(3) have "max \<lfloor>log 2 \<bar>x\<bar>\<rfloor> (- 1022) = e" by simp
  with nz show ?thesis by (simp add: round_float64_def Let_def)
qed

lemma round_float64_0 [simp]: "round_float64 0 = Fin 0"
  by (simp add: round_float64_def)

lemma round_float64_2 [simp]: "round_float64 2 = Fin 2"
  by (subst round_float64_eval [of 1])
    (simp_all add: Let_def round_half_even_def powr_minus_divide)

lemma round_float64_3 [simp]: "round_float64 3 = Fin 3"
  by (subst round_float64_eval [of 1])
    (simp_all add: Let_def round_half_even_def powr_minus_divide)

lemma round_float64_4 [simp]: "round_float64 4 = Fin 4"
  by (subst round_float64_eval [of 2])
    (simp_all add: Let_def round_half_even_def powr_minus_divide)

text \<open>
  The \<open>float64\<close> values nearest to 0.1, 0.2 and 0.3, and their sums: 0.1
  and 0.2 give 0.30000000000000004, which with 0.3 gives 0.6000000000000001;
  0.2 and 0.3 give 0.5 without rounding, which with 0.1 gives the \<open>float64\<close>
  nearest to 0.6.
\<close>

lemma fadd64_tenth_fifth:
  "fadd64 (Fin (3602879701896397 / 36028797018963968)) (Fin (3602879701896397 / 18014398509481984))
     = Fin (1351079888211149 / 4503599627370496)"
  unfolding fadd64_def fadd.simps npfloat.case
  by (subst round_float64_eval [of "- 2"])
    (simp_all add: Let_def round_half_even_def powr_minus_divide)

lemma fadd64_sum_three_tenths:
  "fadd64 (Fin (1351079888211149 / 4503599627370496)) (Fin (5404319552844595 / 18014398509481984))
     = Fin (1351079888211149 / 2251799813685248)"
  unfolding fadd64_def fadd.simps npfloat.case
  by (subst round_float64_eval [of "- 1"])
    (simp_all add: Let_def round_half_even_def powr_minus_divide)

lemma fadd64_fifth_three_tenths:
  "fadd64 (Fin (3602879701896397 / 18014398509481984)) (Fin (5404319552844595 / 18014398509481984))
     = Fin (1 / 2)"
  unfolding fadd64_def fadd.simps npfloat.case
  by (subst round_float64_eval [of "- 1"])
    (simp_all add: Let_def round_half_even_def powr_minus_divide)

lemma fadd64_tenth_half:
  "fadd64 (Fin (3602879701896397 / 36028797018963968)) (Fin (1 / 2))
     = Fin (5404319552844595 / 9007199254740992)"
  unfolding fadd64_def fadd.simps npfloat.case
  by (subst round_float64_eval [of "- 1"])
    (simp_all add: Let_def round_half_even_def powr_minus_divide)

text \<open>
  Claim C5, as the code has it. Let \<open>a\<close>, \<open>b\<close> and \<open>c\<close> be populations on
  the same non-empty age and metallicity bins whose densities have one
  shape. Then \<open>a + b\<close> and \<open>b + a\<close> succeed and are the same population,
  whose density is the elementwise sum, and \<open>b + c\<close>, \<open>(a + b) + c\<close> and
  \<open>a + (b + c)\<close> succeed. The last two are the same population whenever
  none of the four sums of densities involved is rounded; in general they
  agree only up to the rounding of \<open>float64\<close> addition. Run on references
  \<open>ra\<close> and \<open>rb\<close> to \<open>a\<close> and \<open>b\<close> in a store, the addition returns a
  reference that named no object before and now names the sum, and every
  object of the store, \<open>a\<close> and \<open>b\<close> among them, is what it was.
\<close>

theorem Stars_add_commutative_associative:
  assumes grids: "log10ages b = log10ages a" "metallicities b = metallicities a"
      "log10ages c = log10ages a" "metallicities c = metallicities a"
    and shapes: "shape (sfzh b) = shape (sfzh a)" "shape (sfzh c) = shape (sfzh a)"
    and bins: "log10ages a \<noteq> []" "metallicities a \<noteq> []"
    and refs: "objs st ra = Some a" "objs st rb = Some b" "objs st (fresh st) = None"
  shows "\<exists>ab bc l r.
           Stars_add a b = Inr ab \<and> Stars_add b a = Inr ab \<and>
           sfzh ab = add_ndarray2 (sfzh a) (sfzh b) \<and>
           Stars_add b c = Inr bc \<and> Stars_add ab c = Inr l \<and> Stars_add a bc = Inr r \<and>
           (add_ndarray2 (sfzh a) (sfzh b) = add_ndarray2_exact (sfzh a) (sfzh b) \<and>
            add_ndarray2 (sfzh b) (sfzh c) = add_ndarray2_exact (sfzh b) (sfzh c) \<and>
            add_ndarray2 (sfzh ab) (sfzh c) = add_ndarray2_exact (sfzh ab) (sfzh c) \<and>
            add_ndarray2 (sfzh a) (sfzh bc) = add_ndarray2_exact (sfzh a) (sfzh bc)
            \<longrightarrow> l = r) \<and>
           fst (Stars_add_refs st ra rb) = Inr (fresh st) \<and>
           objs (snd (Stars_add_refs st ra rb)) (fresh st) = Some ab \<and>
           objs (snd (Stars_add_refs st ra rb)) ra = Some a \<and>
           objs (snd (Stars_add_refs st ra rb)) rb = Some b \<and>
           (\<forall>x. objs st x \<noteq> None \<longrightarrow> objs (snd (Stars_add_refs st ra rb)) x = objs st x)"
proof -
  from Stars_init_ok [OF bins] obtain ab where
    ab0: "Stars_init (log10ages a) (metallicities a) (add_ndarray2 (sfzh a) (sfzh b)) = Inr ab"
    by blast
  have ab: "Stars_add a b = Inr ab"
    using ab0 shapes(1) by (simp add: Stars_add_eq)
  have ba: "Stars_add b a = Inr ab"
    using ab0 shapes(1) grids(1,2) add_ndarray2_commute [OF shapes(1)]
    by (simp add: Stars_add_eq)
  from Stars_init_Inr [OF ab0] have abf:
    "log10ages ab = log10ages a" "metallicities ab = metallicities a"
    "sfzh ab = add_ndarray2 (sfzh a) (sfzh b)"
    by simp_all
  from bins grids(1,2) Stars_init_ok [of "log10ages b" "metallicities b"] obtain bc where
    bc0: "Stars_init (log10ages b) (metallicities b) (add_ndarray2 (sfzh b) (sfzh c)) = Inr bc"
    by auto
  have bc: "Stars_add b c = Inr bc"
    using bc0 shapes by (simp add: Stars_add_eq)
  from Stars_init_Inr [OF bc0] have bcf: "sfzh bc = add_ndarray2 (sfzh b) (sfzh c)"
    by simp
  from Stars_init_ok [OF bins] obtain l where
    l0: "Stars_init (log10ages a) (metallicities a) (add_ndarray2 (sfzh ab) (sfzh c)) = Inr l"
    by blast
  from Stars_init_ok [OF bins] obtain r where
    r0: "Stars_init (log10ages a) (metallicities a) (add_ndarray2 (sfzh a) (sfzh bc)) = Inr r"
    by blast
  have l: "Stars_add ab c = Inr l"
    using l0 shapes abf by (simp add: Stars_add_eq)
  have r: "Stars_add a bc = Inr r"
    using r0 shapes bcf by (simp add: Stars_add_eq)
  have assoc: "l = r"
    if e: "add_ndarray2 (sfzh a) (sfzh b) = add_ndarray2_exact (sfzh a) (sfzh b) \<and>
           add_ndarray2 (sfzh b) (sfzh c) = add_ndarray2_exact (sfzh b) (sfzh c) \<and>
           add_ndarray2 (sfzh ab) (sfzh c) = add_ndarray2_exact (sfzh ab) (sfzh c) \<and>
           add_ndarray2 (sfzh a) (sfzh bc) = add_ndarray2_exact (sfzh a) (sfzh bc)"
  proof -
    from e abf(3) have 1: "sfzh ab = add_ndarray2_exact (sfzh a) (sfzh b)" by simp
    from e bcf have 2: "sfzh bc = add_ndarray2_exact (sfzh b) (sfzh c)" by simp
    from e have "add_ndarray2 (sfzh ab) (sfzh c) = add_ndarray2_exact (sfzh ab) (sfzh c)"
      by blast
    also have "\<dots> = add_ndarray2_exact (add_ndarray2_exact (sfzh a) (sfzh b)) (sfzh c)"
      by (simp only: 1)
    also have "\<dots> = add_ndarray2_exact (sfzh a) (add_ndarray2_exact (sfzh b) (sfzh c))"
      by (rule add_ndarray2_exact_assoc)
    also have "\<dots> = add_ndarray2_exact (sfzh a) (sfzh bc)"
      by (simp only: 2)
    also from e have "\<dots> = add_ndarray2 (sfzh a) (sfzh bc)"
      by simp
    finally show ?thesis using l0 r0 by simp
  qed
  have st: "Stars_add_refs st ra rb
              = (Inr (fresh st), st\<lparr>objs := (objs st)(fresh st \<mapsto> ab), fresh := Suc (fresh st)\<rparr>)"
    using ab refs(1,2) by (simp add: Stars_add_refs_def new_object_def)
  have s1: "fst (Stars_add_refs st ra rb) = Inr (fresh st)"
    by (simp add: st)
  have s2: "objs (snd (Stars_add_refs st ra rb)) (fresh st) = Some ab"
    by (simp add: st)
  have s5: "\<forall>x. objs st x \<noteq> None \<longrightarrow> objs (snd (Stars_add_refs st ra rb)) x = objs st x"
    using refs(3) by (auto simp: st)
  have s3: "objs (snd (Stars_add_refs st ra rb)) ra = Some a"
    using s5 refs(1) by simp
  have s4: "objs (snd (Stars_add_refs st ra rb)) rb = Some b"
    using s5 refs(2) by simp
  from ab ba abf(3) bc l r assoc s1 s2 s3 s4 s5 show ?thesis by blast
qed

theorem Stars_add_commutative_associative_witness:
  "let a = projr (Stars_init [Fin 6, Fin 7] [Fin (1 / 100), Fin (1 / 50)]
                    \<lparr>nrows = 2, ncols = 2, cells = [[Fin 1, Fin 0], [Fin 0, Fin 0]]\<rparr>);
       b = projr (Stars_init [Fin 6, Fin 7] [Fin (1 / 100), Fin (1 / 50)]
                    \<lparr>nrows = 2, ncols = 2, cells = [[Fin 2, Fin 0], [Fin 0, Fin 2]]\<rparr>);
       c = projr (Stars_init [Fin 6, Fin 7] [Fin (1 / 100), Fin (1 / 50)]
                    \<lparr>nrows = 2, ncols = 2, cells = [[Fin 0, Fin 4], [Fin 0, Fin 0]]\<rparr>);
       st = \<lparr>objs = [0 \<mapsto> a, 1 \<mapsto> b], fresh = 2\<rparr>
   in \<exists>ab bc abc.
        Stars_add a b = Inr ab \<and> Stars_add b a = Inr ab \<and>
        cells (sfzh ab) = [[Fin 3, Fin 0], [Fin 0, Fin 2]] \<and>
        Stars_add b c = Inr bc \<and> Stars_add ab c = Inr abc \<and> Stars_add a bc = Inr abc \<and>
        fst (Stars_add_refs st 0 1) = Inr 2 \<and>
        objs (snd (Stars_add_refs st 0 1)) 2 = Some ab \<and>
        objs (snd (Stars_add_refs st 0 1)) 0 = Some a \<and>
        objs (snd (Stars_add_refs st 0 1)) 1 = Some b"
proof -
  let ?A = "\<lparr>nrows = 2, ncols = 2, cells = [[Fin 1, Fin 0], [Fin 0, Fin 0]]\<rparr>"
  let ?B = "\<lparr>nrows = 2, ncols = 2, cells = [[Fin 2, Fin 0], [Fin 0, Fin 2]]\<rparr>"
  let ?C = "\<lparr>nrows = 2, ncols = 2, cells = [[Fin 0, Fin 4], [Fin 0, Fin 0]]\<rparr>"
  let ?a = "projr (Stars_init [Fin 6, Fin 7] [Fin (1 / 100), Fin (1 / 50)] ?A)"
  let ?b = "projr (Stars_init [Fin 6, Fin 7] [Fin (1 / 100), Fin (1 / 50)] ?B)"
  let ?c = "projr (Stars_init [Fin 6, Fin 7] [Fin (1 / 100), Fin (1 / 50)] ?C)"
  let ?st = "\<lparr>objs = [0 \<mapsto> ?a, 1 \<mapsto> ?b], fresh = 2\<rparr>"
  have f: "sfzh ?a = ?A" "sfzh ?b = ?B" "sfzh ?c = ?C"
    by (simp_all add: Stars_init_def Let_def)
  have g: "log10ages ?b = log10ages ?a" "metallicities ?b = metallicities ?a"
      "log10ages ?c = log10ages ?a" "metallicities ?c = metallicities ?a"
    by (simp_all add: Stars_init_def Let_def)
  have s: "shape (sfzh ?b) = shape (sfzh ?a)" "shape (sfzh ?c) = shape (sfzh ?a)"
    by (simp_all add: f shape_def)
  have n: "log10ages ?a \<noteq> []" "metallicities ?a \<noteq> []"
    by (simp_all add: Stars_init_def Let_def)
  have r: "objs ?st 0 = Some ?a" "objs ?st 1 = Some ?b" "objs ?st (fresh ?st) = None"
    by simp_all
  have ab: "add_ndarray2 ?A ?B = \<lparr>nrows = 2, ncols = 2, cells = [[Fin 3, Fin 0], [Fin 0, Fin 2]]\<rparr>"
    "add_ndarray2_exact ?A ?B
       = \<lparr>nrows = 2, ncols = 2, cells = [[Fin 3, Fin 0], [Fin 0, Fin 2]]\<rparr>"
    by (simp_all add: add_ndarray2_def add_ndarray2_exact_def fadd64_def)
  have bc: "add_ndarray2 ?B ?C = \<lparr>nrows = 2, ncols = 2, cells = [[Fin 2, Fin 4], [Fin 0, Fin 2]]\<rparr>"
    "add_ndarray2_exact ?B ?C
       = \<lparr>nrows = 2, ncols = 2, cells = [[Fin 2, Fin 4], [Fin 0, Fin 2]]\<rparr>"
    by (simp_all add: add_ndarray2_def add_ndarray2_exact_def fadd64_def)
  have abc: "add_ndarray2 \<lparr>nrows = 2, ncols = 2, cells = [[Fin 3, Fin 0], [Fin 0, Fin 2]]\<rparr> ?C
       = add_ndarray2_exact
           \<lparr>nrows = 2, ncols = 2, cells = [[Fin 3, Fin 0], [Fin 0, Fin 2]]\<rparr> ?C"
    "add_ndarray2 ?A \<lparr>nrows = 2, ncols = 2, cells = [[Fin 2, Fin 4], [Fin 0, Fin 2]]\<rparr>
       = add_ndarray2_exact ?A
           \<lparr>nrows = 2, ncols = 2, cells = [[Fin 2, Fin 4], [Fin 0, Fin 2]]\<rparr>"
    by (simp_all add: add_ndarray2_def add_ndarray2_exact_def fadd64_def)
  from Stars_add_commutative_associative [OF g s n r] obtain ab' bc' l' r' where
    t: "Stars_add ?a ?b = Inr ab'" "Stars_add ?b ?a = Inr ab'"
       "sfzh ab' = add_ndarray2 (sfzh ?a) (sfzh ?b)"
       "Stars_add ?b ?c = Inr bc'" "Stars_add ab' ?c = Inr l'" "Stars_add ?a bc' = Inr r'"
       "add_ndarray2 (sfzh ?a) (sfzh ?b) = add_ndarray2_exact (sfzh ?a) (sfzh ?b) \<and>
        add_ndarray2 (sfzh ?b) (sfzh ?c) = add_ndarray2_exact (sfzh ?b) (sfzh ?c) \<and>
        add_ndarray2 (sfzh ab') (sfzh ?c) = add_ndarray2_exact (sfzh ab') (sfzh ?c) \<and>
        add_ndarray2 (sfzh ?a) (sfzh bc') = add_ndarray2_exact (sfzh ?a) (sfzh bc')
        \<longrightarrow> l' = r'"
       "fst (Stars_add_refs ?st 0 1) = Inr (fresh ?st)"
       "objs (snd (Stars_add_refs ?st 0 1)) (fresh ?st) = Some ab'"
       "objs (snd (Stars_add_refs ?st 0 1)) 0 = Some ?a"
       "objs (snd (Stars_add_refs ?st 0 1)) 1 = Some ?b"
    by blast
  from t(3) have sab: "sfzh ab' = \<lparr>nrows = 2, ncols = 2, cells = [[Fin 3, Fin 0], [Fin 0, Fin 2]]\<rparr>"
    by (simp only: f ab)
  from t(4) s have "Stars_init (log10ages ?b) (metallicities ?b)
                      (add_ndarray2 (sfzh ?b) (sfzh ?c)) = Inr bc'"
    by (simp add: Stars_add_eq)
  from Stars_init_Inr [OF this]
  have sbc: "sfzh bc' = \<lparr>nrows = 2, ncols = 2, cells = [[Fin 2, Fin 4], [Fin 0, Fin 2]]\<rparr>"
    by (simp only: f bc)
  have "l' = r'"
    using t(7) by (simp only: f sab sbc ab bc abc simp_thms)
  with t(6) have t6: "Stars_add ?a bc' = Inr l'" by simp
  from sab have cab: "cells (sfzh ab') = [[Fin 3, Fin 0], [Fin 0, Fin 2]]" by simp
  from t(8) have t8: "fst (Stars_add_refs ?st 0 1) = Inr 2" by simp
  from t(9) have t9: "objs (snd (Stars_add_refs ?st 0 1)) 2 = Some ab'" by simp
  from t(1,2) cab t(4,5) t6 t8 t9 t(10,11) show ?thesis
    unfolding Let_def by blast
qed

text \<open>
  The claim as written fails: with densities of one bin holding the
  \<open>float64\<close> values nearest to 0.1, 0.2 and 0.3, the density of
  \<open>(a + b) + c\<close> holds 0.6000000000000001 and that of \<open>a + (b + c)\<close> holds
  the \<open>float64\<close> nearest to 0.6.
\<close>

theorem Stars_add_associativity_counterexample:
  "cells (sfzh (projr (Stars_add
      (projr (Stars_add
         (projr (Stars_init [Fin 6] [Fin (1 / 50)]
            \<lparr>nrows = 1, ncols = 1,
               cells = [[Fin (3602879701896397 / 36028797018963968)]]\<rparr>))
         (projr (Stars_init [Fin 6] [Fin (1 / 50)]
            \<lparr>nrows = 1, ncols = 1,
               cells = [[Fin (3602879701896397 / 18014398509481984)]]\<rparr>))))
      (projr (Stars_init [Fin 6] [Fin (1 / 50)]
         \<lparr>nrows = 1, ncols = 1,
            cells = [[Fin (5404319552844595 / 18014398509481984)]]\<rparr>)))))
     = [[Fin (1351079888211149 / 2251799813685248)]] \<and>
   cells (sfzh (projr (Stars_add
      (projr (Stars_init [Fin 6] [Fin (1 / 50)]
         \<lparr>nrows = 1, ncols = 1,
            cells = [[Fin (3602879701896397 / 36028797018963968)]]\<rparr>))
      (projr (Stars_add
         (projr (Stars_init [Fin 6] [Fin (1 / 50)]
            \<lparr>nrows = 1, ncols = 1,
               cells = [[Fin (3602879701896397 / 18014398509481984)]]\<rparr>))
         (projr (Stars_init [Fin 6] [Fin (1 / 50)]
            \<lparr>nrows = 1, ncols = 1,
               cells = [[Fin (5404319552844595 / 18014398509481984)]]\<rparr>)))))))
     = [[Fin (5404319552844595 / 9007199254740992)]] \<and>
   (1351079888211149 / 2251799813685248 :: real) \<noteq> 5404319552844595 / 9007199254740992"
  by (simp add: Stars_add_def Stars_init_def Let_def shape_def add_ndarray2_def
      fadd64_tenth_fifth fadd64_sum_three_tenths fadd64_fifth_three_tenths fadd64_tenth_half)




section \<open>Normalisation to the total mass\<close>

lemma fadd_eq_Fin: "fadd x y = Fin t \<Longrightarrow> \<exists>a b. x = Fin a \<and> y = Fin b \<and> t = a + b"
  by (cases x; cases y) simp_all

lemma np_sum_map_Fin [simp]: "np_sum (map Fin rs) = Fin (sum_list rs)"
  by (induction rs) simp_all

lemma np_sum_eq_Fin: "np_sum xs = Fin t \<Longrightarrow> \<exists>rs. xs = map Fin rs \<and> sum_list rs = t"
proof (induction xs arbitrary: t)
  case Nil
  then show ?case by simp
next
  case (Cons x xs)
  from Cons.prems obtain a b where ab: "x = Fin a" "np_sum xs = Fin b" "t = a + b"
    by (auto dest: fadd_eq_Fin)
  from Cons.IH [OF ab(2)] obtain rs where "xs = map Fin rs" "sum_list rs = b" by blast
  with ab have "x # xs = map Fin (a # rs) \<and> sum_list (a # rs) = t" by simp
  then show ?case by (rule exI)
qed

lemma np_sum_rows_eq_Fin:
  "np_sum (map np_sum css) = Fin t \<Longrightarrow>
   \<exists>rss. css = map (map Fin) rss \<and> sum_list (map sum_list rss) = t"
proof (induction css arbitrary: t)
  case Nil
  then show ?case by simp
next
  case (Cons c cs)
  from Cons.prems obtain a b where
    ab: "np_sum c = Fin a" "np_sum (map np_sum cs) = Fin b" "t = a + b"
    by (auto dest: fadd_eq_Fin)
  from np_sum_eq_Fin [OF ab(1)] obtain rs where rs: "c = map Fin rs" "sum_list rs = a" by blast
  from Cons.IH [OF ab(2)] obtain rss where
    rss: "cs = map (map Fin) rss" "sum_list (map sum_list rss) = b" by blast
  from rs rss ab(3)
  have "c # cs = map (map Fin) (rs # rss) \<and> sum_list (map sum_list (rs # rss)) = t" by simp
  then show ?case by (rule exI)
qed

lemma sum_list_scale: "sum_list (map (\<lambda>r. r / t * M) rs) = sum_list rs / t * (M::real)"
  by (induction rs) (simp_all add: add_divide_distrib distrib_right)

lemma sum_list_rows_scale:
  "sum_list (map sum_list (map (map (\<lambda>r. r / t * M)) rss))
     = sum_list (map sum_list rss) / t * (M::real)"
proof (induction rss)
  case Nil
  then show ?case by simp
next
  case (Cons rs rss)
  have "sum_list (map sum_list (map (map (\<lambda>r. r / t * M)) (rs # rss)))
          = sum_list (map (\<lambda>r. r / t * M) rs)
            + sum_list (map sum_list (map (map (\<lambda>r. r / t * M)) rss))"
    by simp
  also have "\<dots> = sum_list rs / t * M + sum_list (map sum_list rss) / t * M"
    by (simp only: sum_list_scale Cons.IH)
  also have "\<dots> = sum_list (map sum_list (rs # rss)) / t * M"
    by (simp add: add_divide_distrib distrib_right)
  finally show ?case .
qed

lemma np_sum_rows_Fin:
  "np_sum (map np_sum (map (map Fin) rss)) = Fin (sum_list (map sum_list rss))"
  by (induction rss) simp_all

lemma map_scale_Fin:
  "t \<noteq> 0 \<Longrightarrow>
   map (map (\<lambda>x. fmul (fdiv x (Fin t)) (Fin M))) (map (map Fin) rss)
     = map (map Fin) (map (map (\<lambda>r. r / t * M)) rss)"
  by (induction rss) simp_all

lemma np_sum2_normalise:
  assumes "np_sum2 w = Fin t" and "t \<noteq> 0"
  shows "np_sum2 (normalise w (Fin M)) = Fin M"
proof -
  from assms(1) obtain rss where
    rss: "cells w = map (map Fin) rss" "sum_list (map sum_list rss) = t"
    unfolding np_sum2_def by (auto dest: np_sum_rows_eq_Fin)
  have "cells (normalise w (Fin M))
          = map (map (\<lambda>x. fmul (fdiv x (Fin t)) (Fin M))) (map (map Fin) rss)"
    using assms(1) by (simp add: normalise_def map_ndarray2_def Let_def rss(1))
  then have c: "cells (normalise w (Fin M)) = map (map Fin) (map (map (\<lambda>r. r / t * M)) rss)"
    by (simp only: map_scale_Fin [OF assms(2)])
  have "np_sum2 (normalise w (Fin M))
          = Fin (sum_list (map sum_list (map (map (\<lambda>r. r / t * M)) rss)))"
    unfolding np_sum2_def c by (rule np_sum_rows_Fin)
  also have "\<dots> = Fin M"
    using assms(2) by (simp only: sum_list_rows_scale rss(2)) simp
  finally show ?thesis .
qed

section \<open>The integration loop\<close>

lemma argmin_from_bound: "bi < i0 \<Longrightarrow> argmin_from xs i0 b bi < i0 + length xs"
proof (induction xs arbitrary: i0 b bi)
  case Nil
  then show ?case by simp
next
  case (Cons x xs)
  have 1: "argmin_from xs (Suc i0) x i0 < Suc i0 + length xs"
    by (rule Cons.IH) simp
  have 2: "argmin_from xs (Suc i0) b bi < Suc i0 + length xs"
    by (rule Cons.IH) (use Cons.prems in simp)
  from 1 2 Cons.prems show ?case by simp
qed

lemma argmin_bound: "argmin xs = Inr i \<Longrightarrow> i < length xs"
  using argmin_from_bound [of 0 1] by (cases xs) auto

lemma nearest_index_bound: "nearest_index xs x = Inr i \<Longrightarrow> i < length xs"
  unfolding nearest_index_def by (drule argmin_bound) simp

lemma sfzh_loop_frame:
  "sfzh_loop q zf mets ags ia mn z = Inr w \<Longrightarrow>
   nrows w = nrows z \<and> ncols w = ncols z \<and> length (cells w) = length (cells z) \<and>
   (\<forall>i. i < ia \<or> ia + (length ags - 1) \<le> i \<longrightarrow> cells w ! i = cells z ! i)"
proof (induction q zf mets ags ia mn z rule: sfzh_loop.induct)
  case (1 q zf mets age nxt rest ia min_age z)
  from "1.prems" obtain max_age iZ where
    m: "py_int (np_mean2 nxt age) = Inr max_age" and
    n: "nearest_index mets (zf age) = Inr iZ" and
    r: "sfzh_loop q zf mets (nxt # rest) (Suc ia) max_age (set2 z ia iZ (q min_age max_age)) = Inr w"
    by (auto split: sum.splits)
  from "1.IH" [OF m n r] show ?case
    by (auto simp: set2_def)
qed simp_all

lemma sfzh_loop_no_mets:
  "sfzh_loop q zf [] ags ia mn z = Inr w \<Longrightarrow> w = z"
proof (cases ags)
  case Nil
  assume "sfzh_loop q zf [] ags ia mn z = Inr w"
  with Nil show ?thesis by simp
next
  case (Cons a as)
  assume h: "sfzh_loop q zf [] ags ia mn z = Inr w"
  show ?thesis
  proof (cases as)
    case Nil
    with Cons h show ?thesis by simp
  next
    case (Cons b bs)
    with \<open>ags = a # as\<close> h show ?thesis
      by (auto simp: nearest_index_def split: sum.splits)
  qed
qed

lemma np_sum2_zeros [simp]: "np_sum2 (np_zeros2 n m) = Fin 0"
  by (simp add: np_sum2_def np_zeros2_def)

lemma sfzh_weights_no_ages: "sfzh_weights q [] mets mh = Inr w \<Longrightarrow> np_sum2 w = Fin 0"
  by (auto simp: sfzh_weights_def Let_def np_sum2_def np_zeros2_def split: if_splits)

lemma sfzh_weights_no_mets: "sfzh_weights q l10a [] mh = Inr w \<Longrightarrow> np_sum2 w = Fin 0"
  by (auto simp: sfzh_weights_def Let_def split: if_splits dest: sfzh_loop_no_mets)

lemma sfzh_weights_last_row:
  assumes "sfzh_weights q l10a mets mh = Inr w" and "l10a \<noteq> []"
  shows "length (cells w) = length l10a \<and> last (cells w) = replicate (length mets) (Fin 0)"
proof (cases "dist_type mh = ''delta''")
  case True
  let ?z = "np_zeros2 (length l10a) (length mets)"
  from assms(1) True have
    l: "sfzh_loop q (Z mh) mets (map pow10 l10a) 0 0 ?z = Inr w"
    by (simp add: sfzh_weights_def Let_def)
  from sfzh_loop_frame [OF l] have
    len: "length (cells w) = length l10a" and
    fr: "cells w ! (length l10a - 1) = cells ?z ! (length l10a - 1)"
    by (simp_all add: np_zeros2_def)
  from assms(2) have "cells ?z ! (length l10a - 1) = replicate (length mets) (Fin 0)"
    by (simp add: np_zeros2_def)
  moreover from len assms(2) have "cells w \<noteq> []" by auto
  then have "last (cells w) = cells w ! (length (cells w) - 1)" by (rule last_conv_nth)
  ultimately show ?thesis using fr len by simp
next
  case False
  with assms show ?thesis
    by (auto simp: sfzh_weights_def Let_def np_zeros2_def)
qed

lemma fdiv_zero: "tot \<noteq> Fin 0 \<Longrightarrow> tot \<noteq> NaN \<Longrightarrow> fdiv (Fin 0) tot = Fin 0"
  by (cases tot) simp_all

lemma cells_normalise:
  "cells (normalise w M) = map (map (\<lambda>x. fmul (fdiv x (np_sum2 w)) M)) (cells w)"
  by (simp add: normalise_def map_ndarray2_def Let_def)

lemma generate_sfzh_normalised:
  assumes "sfzh_weights q l10a mets mh = Inr w" and "np_sum2 w = Fin t" and "t \<noteq> 0"
  shows "\<exists>s. generate_sfzh l10a mets q mh (Fin M) = Inr s \<and>
             sfzh s = normalise w (Fin M) \<and> np_sum2 (sfzh s) = Fin M"
proof -
  from assms have a: "l10a \<noteq> []"
    by (auto dest: sfzh_weights_no_ages)
  from assms have b: "mets \<noteq> []"
    by (auto dest: sfzh_weights_no_mets)
  from Stars_init_ok [OF a b] obtain s where
    s: "Stars_init l10a mets (normalise w (Fin M)) = Inr s" by blast
  from Stars_init_Inr [OF s] have d: "sfzh s = normalise w (Fin M)" by simp
  have g: "generate_sfzh l10a mets q mh (Fin M) = Inr s"
    by (simp add: generate_sfzh_def assms(1) s)
  have "np_sum2 (sfzh s) = Fin M"
    unfolding d by (rule np_sum2_normalise [OF assms(2,3)])
  with g d show ?thesis by blast
qed


lemma nearest_index_total:
  "mets \<noteq> [] \<Longrightarrow> \<exists>i. nearest_index mets x = Inr i \<and> i < length mets"
proof -
  assume "mets \<noteq> []"
  then obtain i where i: "nearest_index mets x = Inr i"
    by (cases mets) (auto simp: nearest_index_def)
  with nearest_index_bound [OF i] show ?thesis by blast
qed

lemma sum_list_update_zeros:
  "j < m \<Longrightarrow> sum_list ((replicate m (0::real))[j := v]) = v"
proof (induction m arbitrary: j)
  case 0
  then show ?case by simp
next
  case (Suc m)
  then show ?case by (cases j) (simp_all add: sum_list_replicate)
qed

lemma np_sum2_Fin_cells:
  "cells z = map (map Fin) rss \<Longrightarrow> np_sum2 z = Fin (sum_list (map sum_list rss))"
  unfolding np_sum2_def by (simp only: np_sum_rows_Fin)

lemma sum_list_rows_update:
  "i < length rss \<Longrightarrow>
   sum_list (map sum_list (rss[i := r]))
     = sum_list (map sum_list rss) - sum_list (rss ! i) + (sum_list r :: real)"
proof (induction rss arbitrary: i)
  case Nil
  then show ?case by simp
next
  case (Cons a rss)
  then show ?case by (cases i) simp_all
qed

lemma cells_set2_Fin:
  assumes "cells z = map (map Fin) rss" and "ia < length rss"
  shows "cells (set2 z ia iZ (Fin v)) = map (map Fin) (rss[ia := (rss ! ia)[iZ := v]])"
  using assms by (simp add: set2_def map_update)

text \<open>The loop on the exact integral of a constant rate \<open>c\<close>.\<close>

lemma sfzh_loop_constant:
  assumes "mets \<noteq> []"
  shows "cells z = map (map Fin) rss \<Longrightarrow> ia + (length ags - 1) \<le> length rss \<Longrightarrow>
         (\<forall>i. ia \<le> i \<and> i < length rss \<longrightarrow> rss ! i = replicate (length mets) 0) \<Longrightarrow>
         \<exists>w. sfzh_loop (\<lambda>lo hi. Fin (c * real_of_int (hi - lo))) zf mets (map Fin ags) ia mn z
                = Inr w \<and>
             np_sum2 w = Fin (sum_list (map sum_list rss) +
               c * real_of_int
                 ((if 2 \<le> length ags
                   then (let x = (last ags + last (butlast ags)) / 2
                         in if 0 \<le> x then \<lfloor>x\<rfloor> else \<lceil>x\<rceil>)
                   else mn) - mn))"
proof (induction ags arbitrary: z rss ia mn)
  case Nil
  then show ?case by (simp add: np_sum2_Fin_cells)
next
  case (Cons age ags)
  show ?case
  proof (cases ags)
    case Nil
    with Cons.prems show ?thesis by (simp add: np_sum2_Fin_cells)
  next
    case c2: (Cons nxt rest)
    let ?x = "(nxt + age) / 2"
    let ?e = "if 0 \<le> ?x then \<lfloor>?x\<rfloor> else \<lceil>?x\<rceil>"
    let ?v = "c * real_of_int (?e - mn)"
    have e: "py_int (np_mean2 (Fin nxt) (Fin age)) = Inr ?e"
      by (simp add: np_mean2_def)
    from nearest_index_total [OF assms] obtain iZ where
      n: "nearest_index mets (zf (Fin age)) = Inr iZ" and b: "iZ < length mets" by blast
    from Cons.prems(2) c2 have ia: "ia < length rss" by simp
    let ?rss = "rss[ia := (rss ! ia)[iZ := ?v]]"
    have z': "cells (set2 z ia iZ (Fin ?v)) = map (map Fin) ?rss"
      by (rule cells_set2_Fin [OF Cons.prems(1) ia])
    have len: "Suc ia + (length ags - 1) \<le> length ?rss"
      using Cons.prems(2) c2 by simp
    have zero: "\<forall>i. Suc ia \<le> i \<and> i < length ?rss \<longrightarrow> ?rss ! i = replicate (length mets) 0"
      using Cons.prems(3) by simp
    from Cons.IH [OF z' len zero, of ?e] obtain w where
      w: "sfzh_loop (\<lambda>lo hi. Fin (c * real_of_int (hi - lo))) zf mets (map Fin ags) (Suc ia) ?e
            (set2 z ia iZ (Fin ?v)) = Inr w" and
      s: "np_sum2 w = Fin (sum_list (map sum_list ?rss) +
               c * real_of_int
                 ((if 2 \<le> length ags
                   then (let x = (last ags + last (butlast ags)) / 2
                         in if 0 \<le> x then \<lfloor>x\<rfloor> else \<lceil>x\<rceil>)
                   else ?e) - ?e))"
      by blast
    have row: "rss ! ia = replicate (length mets) 0"
      using Cons.prems(3) ia by simp
    have su: "sum_list (map sum_list ?rss) = sum_list (map sum_list rss) + ?v"
      using ia b by (simp add: sum_list_rows_update row sum_list_update_zeros sum_list_replicate)
    have run: "sfzh_loop (\<lambda>lo hi. Fin (c * real_of_int (hi - lo))) zf mets
                 (map Fin (age # ags)) ia mn z = Inr w"
      using w e n by (simp add: c2)
    have fin: "(if 2 \<le> length (age # ags)
                then (let x = (last (age # ags) + last (butlast (age # ags))) / 2
                      in if 0 \<le> x then \<lfloor>x\<rfloor> else \<lceil>x\<rceil>)
                else mn)
               = (if 2 \<le> length ags
                   then (let x = (last ags + last (butlast ags)) / 2
                         in if 0 \<le> x then \<lfloor>x\<rfloor> else \<lceil>x\<rceil>)
                   else ?e)"
      by (cases rest) (simp_all add: c2 Let_def)
    have "np_sum2 w = Fin (sum_list (map sum_list rss) +
               c * real_of_int
                 ((if 2 \<le> length (age # ags)
                then (let x = (last (age # ags) + last (butlast (age # ags))) / 2
                      in if 0 \<le> x then \<lfloor>x\<rfloor> else \<lceil>x\<rceil>)
                else mn) - mn))"
      unfolding fin s su by (simp add: algebra_simps)
    with run show ?thesis by blast
  qed
qed



lemma generate_sfzh_constant:
  assumes d: "dist_type mh = ''delta''" and me: "mets \<noteq> []" and c: "c \<noteq> 0"
    and n: "2 \<le> length as" and x: "2 \<le> 10 powr last as + 10 powr last (butlast as)"
  shows "\<exists>s. generate_sfzh (map Fin as) mets (\<lambda>lo hi. Fin (c * real_of_int (hi - lo))) mh (Fin M)
               = Inr s \<and> np_sum2 (sfzh s) = Fin M"
proof -
  let ?q = "\<lambda>lo hi. Fin (c * real_of_int (hi - lo))"
  let ?ags = "map ((powr) 10) as"
  let ?rss = "replicate (length as) (replicate (length mets) (0::real))"
  let ?z = "np_zeros2 (length (map Fin as)) (length mets)"
  let ?x = "(10 powr last as + 10 powr last (butlast as)) / 2"
  have p: "map pow10 (map Fin as) = map Fin ?ags" by simp
  have z: "cells ?z = map (map Fin) ?rss" by (simp add: np_zeros2_def)
  have l: "0 + (length ?ags - 1) \<le> length ?rss" by simp
  have r: "\<forall>i. 0 \<le> i \<and> i < length ?rss \<longrightarrow> ?rss ! i = replicate (length mets) 0" by simp
  from sfzh_loop_constant [OF me z l r, of c "Z mh" 0] obtain w where
    w: "sfzh_loop ?q (Z mh) mets (map Fin ?ags) 0 0 ?z = Inr w" and
    s: "np_sum2 w = Fin (sum_list (map sum_list ?rss) +
               c * real_of_int
                 ((if 2 \<le> length ?ags
                   then (let x = (last ?ags + last (butlast ?ags)) / 2
                         in if 0 \<le> x then \<lfloor>x\<rfloor> else \<lceil>x\<rceil>)
                   else 0) - 0))"
    by blast
  from n have ne: "as \<noteq> []" "butlast as \<noteq> []" by (auto simp: butlast_conv_take)
  have la: "last ?ags = 10 powr last as" "last (butlast ?ags) = 10 powr last (butlast as)"
    using ne by (simp_all add: last_map map_butlast [symmetric])
  have s0: "sum_list (map sum_list ?rss) = 0" by (simp add: sum_list_replicate)
  from x have x1: "1 \<le> ?x" by simp
  then have fl: "1 \<le> \<lfloor>?x\<rfloor>" by linarith
  have t: "np_sum2 w = Fin (c * real_of_int \<lfloor>?x\<rfloor>)"
    using n x1 unfolding s s0 la by (simp add: Let_def)
  from fl have "\<lfloor>?x\<rfloor> \<noteq> 0" by linarith
  with c have t0: "c * real_of_int \<lfloor>?x\<rfloor> \<noteq> 0" by simp
  have sw: "sfzh_weights ?q (map Fin as) mets mh = Inr w"
    using d w by (simp only: sfzh_weights_def Let_def p) simp
  from generate_sfzh_normalised [OF sw t t0, of M] show ?thesis by blast
qed

text \<open>
  Claim C3, as the code has it. Whenever the weights that the loop of
  \<open>generate_sfzh\<close> has integrated sum to a finite value other than zero,
  and the stellar mass is finite, the builder returns a population whose
  density is those weights divided by their sum and multiplied by the mass,
  and the sum of the density is the mass. This is the case for the exact
  integral of a constant star formation rate other than zero, a delta-type
  metallicity history, finite age bins, at least two of them, of which the
  last two have a mean age of one year or more, and a non-empty array of
  metallicity bins.
\<close>

theorem generate_sfzh_total_mass:
  "(sfzh_weights q l10a mets mh = Inr w \<and> np_sum2 w = Fin t \<and> t \<noteq> 0 \<longrightarrow>
      (\<exists>s. generate_sfzh l10a mets q mh (Fin M) = Inr s \<and>
           sfzh s = normalise w (Fin M) \<and> np_sum2 (sfzh s) = Fin M)) \<and>
   (dist_type mh = ''delta'' \<and> mets \<noteq> [] \<and> c \<noteq> 0 \<and> 2 \<le> length as \<and>
    2 \<le> 10 powr last as + 10 powr last (butlast as) \<longrightarrow>
      (\<exists>s. generate_sfzh (map Fin as) mets (\<lambda>lo hi. Fin (c * real_of_int (hi - lo))) mh (Fin M)
             = Inr s \<and> np_sum2 (sfzh s) = Fin M))"
proof -
  have 1: "sfzh_weights q l10a mets mh = Inr w \<and> np_sum2 w = Fin t \<and> t \<noteq> 0 \<longrightarrow>
      (\<exists>s. generate_sfzh l10a mets q mh (Fin M) = Inr s \<and>
           sfzh s = normalise w (Fin M) \<and> np_sum2 (sfzh s) = Fin M)"
    using generate_sfzh_normalised [of q l10a mets mh w t M] by blast
  have 2: "dist_type mh = ''delta'' \<and> mets \<noteq> [] \<and> c \<noteq> 0 \<and> 2 \<le> length as \<and>
    2 \<le> 10 powr last as + 10 powr last (butlast as) \<longrightarrow>
      (\<exists>s. generate_sfzh (map Fin as) mets (\<lambda>lo hi. Fin (c * real_of_int (hi - lo))) mh (Fin M)
             = Inr s \<and> np_sum2 (sfzh s) = Fin M)"
    using generate_sfzh_constant [of mh mets c as M] by blast
  from 1 2 show ?thesis by (rule conjI)
qed

theorem generate_sfzh_total_mass_witness:
  "(\<exists>s. generate_sfzh [Fin 6, Fin 7] [Fin (1 / 100), Fin (1 / 50)]
          (\<lambda>lo hi. Fin (real_of_int (hi - lo)))
          \<lparr>dist_type = ''delta'', Z = (\<lambda>age. Fin (1 / 50))\<rparr> (Fin 3) = Inr s \<and>
        sfzh s = normalise
                   \<lparr>nrows = 2, ncols = 2, cells = [[Fin 0, Fin 5500000], [Fin 0, Fin 0]]\<rparr>
                   (Fin 3) \<and>
        np_sum2 (sfzh s) = Fin 3) \<and>
   (\<exists>s. generate_sfzh (map Fin [6, 7]) [Fin (1 / 100), Fin (1 / 50)]
          (\<lambda>lo hi. Fin (2 * real_of_int (hi - lo)))
          \<lparr>dist_type = ''delta'', Z = (\<lambda>age. Fin (1 / 50))\<rparr> (Fin 3) = Inr s \<and>
        np_sum2 (sfzh s) = Fin 3)"
proof -
  let ?mh = "\<lparr>dist_type = ''delta'', Z = (\<lambda>age. Fin (1 / 50))\<rparr>"
  have h1: "sfzh_weights (\<lambda>lo hi. Fin (real_of_int (hi - lo))) [Fin 6, Fin 7]
              [Fin (1 / 100), Fin (1 / 50)] ?mh
            = Inr \<lparr>nrows = 2, ncols = 2, cells = [[Fin 0, Fin 5500000], [Fin 0, Fin 0]]\<rparr>"
    by (simp add: sfzh_weights_def np_zeros2_def np_mean2_def nearest_index_def fsub_def set2_def)
  have h2: "np_sum2 \<lparr>nrows = 2, ncols = 2, cells = [[Fin 0, Fin 5500000], [Fin 0, Fin 0]]\<rparr>
            = Fin 5500000"
    by (simp add: np_sum2_def)
  have h3: "(5500000::real) \<noteq> 0" by simp
  have k1: "dist_type ?mh = ''delta''" by simp
  have k2: "[Fin (1 / 100), Fin (1 / 50)] \<noteq> []" by simp
  have k3: "(2::real) \<noteq> 0" by simp
  have k4: "2 \<le> length [6, 7 :: real]" by simp
  have k5: "2 \<le> 10 powr last [6, 7 :: real] + 10 powr last (butlast [6, 7 :: real])" by simp
  from generate_sfzh_total_mass
         [where q = "\<lambda>lo hi. Fin (real_of_int (hi - lo))" and ?l10a = "[Fin 6, Fin 7]"
            and mets = "[Fin (1 / 100), Fin (1 / 50)]" and mh = ?mh
            and w = "\<lparr>nrows = 2, ncols = 2, cells = [[Fin 0, Fin 5500000], [Fin 0, Fin 0]]\<rparr>"
            and t = 5500000 and M = 3 and c = 2 and as = "[6, 7]"]
       h1 h2 h3 k1 k2 k3 k4 k5
  show ?thesis by blast
qed

text \<open>
  The claim as written fails when the weights sum to zero, since the
  division then gives \<open>nan\<close> in every bin. It happens for the constant
  star formation rate 1 on age bins below one year, where the midpoint
  truncates to 0, and for a rate that is 1 from the age of \<open>10\<^sup>9\<close> years on
  and 0 before, on the bins \<open>10\<^sup>6\<close> and \<open>10\<^sup>7\<close> years.
\<close>

theorem generate_sfzh_total_mass_counterexample:
  "\<not> isl (generate_sfzh [Fin (- 2), Fin (- 1)] [Fin (1 / 100), Fin (1 / 50)]
            (\<lambda>lo hi. Fin (real_of_int (hi - lo)))
            \<lparr>dist_type = ''delta'', Z = (\<lambda>age. Fin (1 / 50))\<rparr> (Fin 1)) \<and>
   np_sum2 (sfzh (projr (generate_sfzh [Fin (- 2), Fin (- 1)] [Fin (1 / 100), Fin (1 / 50)]
            (\<lambda>lo hi. Fin (real_of_int (hi - lo)))
            \<lparr>dist_type = ''delta'', Z = (\<lambda>age. Fin (1 / 50))\<rparr> (Fin 1)))) \<noteq> Fin 1 \<and>
   \<not> isl (generate_sfzh [Fin 6, Fin 7] [Fin (1 / 100), Fin (1 / 50)]
            (\<lambda>lo hi. Fin (real_of_int (max 0 (hi - 1000000000) - max 0 (lo - 1000000000))))
            \<lparr>dist_type = ''delta'', Z = (\<lambda>age. Fin (1 / 50))\<rparr> (Fin 1)) \<and>
   np_sum2 (sfzh (projr (generate_sfzh [Fin 6, Fin 7] [Fin (1 / 100), Fin (1 / 50)]
            (\<lambda>lo hi. Fin (real_of_int (max 0 (hi - 1000000000) - max 0 (lo - 1000000000))))
            \<lparr>dist_type = ''delta'', Z = (\<lambda>age. Fin (1 / 50))\<rparr> (Fin 1)))) \<noteq> Fin 1"
proof -
  have a: "generate_sfzh [Fin (- 2), Fin (- 1)] [Fin (1 / 100), Fin (1 / 50)]
            (\<lambda>lo hi. Fin (real_of_int (hi - lo)))
            \<lparr>dist_type = ''delta'', Z = (\<lambda>age. Fin (1 / 50))\<rparr> (Fin 1)
           = Stars_init [Fin (- 2), Fin (- 1)] [Fin (1 / 100), Fin (1 / 50)]
               \<lparr>nrows = Suc (Suc 0), ncols = Suc (Suc 0), cells = [[NaN, NaN], [NaN, NaN]]\<rparr>"
    by (simp add: generate_sfzh_def sfzh_weights_def np_zeros2_def np_mean2_def nearest_index_def
        fsub_def set2_def powr_minus_divide normalise_def map_ndarray2_def np_sum2_def)
  have b: "generate_sfzh [Fin 6, Fin 7] [Fin (1 / 100), Fin (1 / 50)]
            (\<lambda>lo hi. Fin (real_of_int (max 0 (hi - 1000000000) - max 0 (lo - 1000000000))))
            \<lparr>dist_type = ''delta'', Z = (\<lambda>age. Fin (1 / 50))\<rparr> (Fin 1)
           = Stars_init [Fin 6, Fin 7] [Fin (1 / 100), Fin (1 / 50)]
               \<lparr>nrows = Suc (Suc 0), ncols = Suc (Suc 0), cells = [[NaN, NaN], [NaN, NaN]]\<rparr>"
    by (simp add: generate_sfzh_def sfzh_weights_def np_zeros2_def np_mean2_def nearest_index_def
        fsub_def set2_def normalise_def map_ndarray2_def np_sum2_def)
  show ?thesis
    unfolding a b by (simp add: Stars_init_def Let_def np_sum2_def)
qed

section \<open>The weight of the final age bin\<close>

lemma sf_hist_loop_frame:
  "sf_hist_loop q ags ia mn h = Inr h' \<Longrightarrow>
   length h' = length h \<and>
   (\<forall>i. i < ia \<or> ia + (length ags - 1) \<le> i \<longrightarrow> h' ! i = h ! i)"
proof (induction q ags ia mn h rule: sf_hist_loop.induct)
  case (1 q age nxt rest ia min_age h)
  from "1.prems" obtain max_age where
    m: "py_int (np_mean2 nxt age) = Inr max_age" and
    r: "sf_hist_loop q (nxt # rest) (Suc ia) max_age (h[ia := q min_age max_age]) = Inr h'"
    by (auto split: sum.splits)
  from "1.IH" [OF m r] show ?case by auto
qed simp_all

lemma sf_hist_weights_last:
  assumes "sf_hist_weights ags q lg = Inr h" and "ags \<noteq> []"
  shows "length h = length ags \<and> last h = Fin 0"
proof -
  let ?ags = "if lg then map pow10 ags else ags"
  from assms(1) have l: "sf_hist_loop q ?ags 0 0 (replicate (length ?ags) (Fin 0)) = Inr h"
    by (simp add: sf_hist_weights_def Let_def)
  have n: "length ?ags = length ags" by simp
  from sf_hist_loop_frame [OF l] have
    len: "length h = length ags" and
    fr: "h ! (length ags - 1) = replicate (length ags) (Fin 0) ! (length ags - 1)"
    by (simp_all only: n length_replicate) simp_all
  from len assms(2) have "h \<noteq> []" by auto
  then have "last h = h ! (length h - 1)" by (rule last_conv_nth)
  with fr len assms(2) show ?thesis by simp
qed

lemma fmul_zero_Fin [simp]: "fmul (Fin 0) (Fin M) = Fin 0"
  by simp

lemma cells_set2_same:
  "i < length (cells z) \<Longrightarrow> cells (set2 z i j v) ! i = (cells z ! i)[j := v]"
  by (simp add: set2_def)

lemma cells_set2_neq:
  "i \<noteq> k \<Longrightarrow> cells (set2 z k j v) ! i = cells z ! i"
  by (simp add: set2_def)

lemma sfzh_loop_rows:
  "sfzh_loop q zf mets ags ia mn z = Inr w \<Longrightarrow> ia + (length ags - 1) \<le> length (cells z) \<Longrightarrow>
   \<forall>k. Suc k < length ags \<longrightarrow>
     (\<exists>lo hi iZ.
        (if k = 0 then lo = mn else py_int (np_mean2 (ags ! k) (ags ! (k - 1))) = Inr lo) \<and>
        py_int (np_mean2 (ags ! Suc k) (ags ! k)) = Inr hi \<and>
        nearest_index mets (zf (ags ! k)) = Inr iZ \<and>
        cells w ! (ia + k) = (cells z ! (ia + k))[iZ := q lo hi])"
proof (induction q zf mets ags ia mn z rule: sfzh_loop.induct)
  case (1 q zf mets age nxt rest ia min_age z)
  let ?ags = "age # nxt # rest"
  from "1.prems"(1) obtain max_age iZ where
    m: "py_int (np_mean2 nxt age) = Inr max_age" and
    n: "nearest_index mets (zf age) = Inr iZ" and
    r: "sfzh_loop q zf mets (nxt # rest) (Suc ia) max_age (set2 z ia iZ (q min_age max_age)) = Inr w"
    by (auto split: sum.splits)
  let ?z = "set2 z ia iZ (q min_age max_age)"
  from "1.prems"(2) have ia: "ia < length (cells z)" by simp
  have len: "Suc ia + (length (nxt # rest) - 1) \<le> length (cells ?z)"
    using "1.prems"(2) by (simp add: set2_def)
  note IH = "1.IH" [OF m n r len]
  show ?case
  proof (intro allI impI)
    fix k
    assume k: "Suc k < length ?ags"
    show "\<exists>lo hi iZ.
        (if k = 0 then lo = min_age else py_int (np_mean2 (?ags ! k) (?ags ! (k - 1))) = Inr lo) \<and>
        py_int (np_mean2 (?ags ! Suc k) (?ags ! k)) = Inr hi \<and>
        nearest_index mets (zf (?ags ! k)) = Inr iZ \<and>
        cells w ! (ia + k) = (cells z ! (ia + k))[iZ := q lo hi]"
    proof (cases k)
      case 0
      from sfzh_loop_frame [OF r] have "cells w ! ia = cells ?z ! ia" by simp
      then have "cells w ! ia = (cells z ! ia)[iZ := q min_age max_age]"
        using ia by (simp add: cells_set2_same)
      with m n 0 show ?thesis by simp
    next
      case (Suc k')
      with k have k': "Suc k' < length (nxt # rest)" by simp
      from IH k' obtain lo hi jZ where
        lo: "if k' = 0 then lo = max_age
             else py_int (np_mean2 ((nxt # rest) ! k') ((nxt # rest) ! (k' - 1))) = Inr lo" and
        hi: "py_int (np_mean2 ((nxt # rest) ! Suc k') ((nxt # rest) ! k')) = Inr hi" and
        jZ: "nearest_index mets (zf ((nxt # rest) ! k')) = Inr jZ" and
        row: "cells w ! (Suc ia + k') = (cells ?z ! (Suc ia + k'))[jZ := q lo hi]"
        by blast
      have lo': "py_int (np_mean2 (?ags ! k) (?ags ! (k - 1))) = Inr lo"
      proof (cases k')
        case 0
        with lo m Suc show ?thesis by simp
      next
        case (Suc k'')
        with lo \<open>k = Suc k'\<close> show ?thesis by simp
      qed
      have row': "cells w ! (ia + k) = (cells z ! (ia + k))[jZ := q lo hi]"
        using row Suc by (simp add: cells_set2_neq)
      from lo' hi jZ row' Suc show ?thesis by simp
    qed
  qed
qed simp_all

lemma sf_hist_loop_entries:
  "sf_hist_loop q ags ia mn h = Inr h' \<Longrightarrow> ia + (length ags - 1) \<le> length h \<Longrightarrow>
   \<forall>k. Suc k < length ags \<longrightarrow>
     (\<exists>lo hi.
        (if k = 0 then lo = mn else py_int (np_mean2 (ags ! k) (ags ! (k - 1))) = Inr lo) \<and>
        py_int (np_mean2 (ags ! Suc k) (ags ! k)) = Inr hi \<and>
        h' ! (ia + k) = q lo hi)"
proof (induction q ags ia mn h rule: sf_hist_loop.induct)
  case (1 q age nxt rest ia min_age h)
  let ?ags = "age # nxt # rest"
  from "1.prems"(1) obtain max_age where
    m: "py_int (np_mean2 nxt age) = Inr max_age" and
    r: "sf_hist_loop q (nxt # rest) (Suc ia) max_age (h[ia := q min_age max_age]) = Inr h'"
    by (auto split: sum.splits)
  from "1.prems"(2) have ia: "ia < length h" by simp
  have len: "Suc ia + (length (nxt # rest) - 1) \<le> length (h[ia := q min_age max_age])"
    using "1.prems"(2) by simp
  note IH = "1.IH" [OF m r len]
  show ?case
  proof (intro allI impI)
    fix k
    assume k: "Suc k < length ?ags"
    show "\<exists>lo hi.
        (if k = 0 then lo = min_age else py_int (np_mean2 (?ags ! k) (?ags ! (k - 1))) = Inr lo) \<and>
        py_int (np_mean2 (?ags ! Suc k) (?ags ! k)) = Inr hi \<and>
        h' ! (ia + k) = q lo hi"
    proof (cases k)
      case 0
      from sf_hist_loop_frame [OF r] have "h' ! ia = (h[ia := q min_age max_age]) ! ia" by simp
      then have "h' ! ia = q min_age max_age" using ia by simp
      with m 0 show ?thesis by simp
    next
      case (Suc k')
      with k have k': "Suc k' < length (nxt # rest)" by simp
      from IH k' obtain lo hi where
        lo: "if k' = 0 then lo = max_age
             else py_int (np_mean2 ((nxt # rest) ! k') ((nxt # rest) ! (k' - 1))) = Inr lo" and
        hi: "py_int (np_mean2 ((nxt # rest) ! Suc k') ((nxt # rest) ! k')) = Inr hi" and
        row: "h' ! (Suc ia + k') = q lo hi"
        by blast
      have lo': "py_int (np_mean2 (?ags ! k) (?ags ! (k - 1))) = Inr lo"
      proof (cases k')
        case 0
        with lo m Suc show ?thesis by simp
      next
        case (Suc k'')
        with lo \<open>k = Suc k'\<close> show ?thesis by simp
      qed
      from lo' hi row Suc show ?thesis by simp
    qed
  qed
qed simp_all


lemma sfzh_weights_rows:
  assumes d: "dist_type mh = ''delta''" and w: "sfzh_weights q l10a mets mh = Inr w"
  shows "\<forall>k. Suc k < length l10a \<longrightarrow>
     (\<exists>lo hi iZ.
        (if k = 0 then lo = 0
         else py_int (np_mean2 (pow10 (l10a ! k)) (pow10 (l10a ! (k - 1)))) = Inr lo) \<and>
        py_int (np_mean2 (pow10 (l10a ! Suc k)) (pow10 (l10a ! k))) = Inr hi \<and>
        nearest_index mets (Z mh (pow10 (l10a ! k))) = Inr iZ \<and>
        cells w ! k = (replicate (length mets) (Fin 0))[iZ := q lo hi])"
proof (intro allI impI)
  fix k
  assume k: "Suc k < length l10a"
  let ?ags = "map pow10 l10a"
  let ?z = "np_zeros2 (length l10a) (length mets)"
  from d w have l: "sfzh_loop q (Z mh) mets ?ags 0 0 ?z = Inr w"
    by (simp add: sfzh_weights_def Let_def)
  have len: "0 + (length ?ags - 1) \<le> length (cells ?z)"
    by (simp add: np_zeros2_def)
  from k have k': "Suc k < length ?ags" by simp
  from sfzh_loop_rows [OF l len] k' obtain lo hi iZ where
    lo: "if k = 0 then lo = 0 else py_int (np_mean2 (?ags ! k) (?ags ! (k - 1))) = Inr lo" and
    hi: "py_int (np_mean2 (?ags ! Suc k) (?ags ! k)) = Inr hi" and
    iZ: "nearest_index mets (Z mh (?ags ! k)) = Inr iZ" and
    row: "cells w ! (0 + k) = (cells ?z ! (0 + k))[iZ := q lo hi]"
    by blast
  from k have n: "?ags ! k = pow10 (l10a ! k)" "?ags ! Suc k = pow10 (l10a ! Suc k)"
    "?ags ! (k - 1) = pow10 (l10a ! (k - 1))"
    by simp_all
  from k have zr: "cells ?z ! k = replicate (length mets) (Fin 0)"
    by (simp add: np_zeros2_def)
  from lo hi iZ row show "\<exists>lo hi iZ.
        (if k = 0 then lo = 0
         else py_int (np_mean2 (pow10 (l10a ! k)) (pow10 (l10a ! (k - 1)))) = Inr lo) \<and>
        py_int (np_mean2 (pow10 (l10a ! Suc k)) (pow10 (l10a ! k))) = Inr hi \<and>
        nearest_index mets (Z mh (pow10 (l10a ! k))) = Inr iZ \<and>
        cells w ! k = (replicate (length mets) (Fin 0))[iZ := q lo hi]"
    unfolding n by (simp only: zr add_0) blast
qed

lemma sf_hist_weights_entries:
  assumes h: "sf_hist_weights ags q lg = Inr h"
  shows "\<forall>k. Suc k < length ags \<longrightarrow>
     (\<exists>lo hi.
        (if k = 0 then lo = 0
         else py_int (np_mean2 ((if lg then map pow10 ags else ags) ! k)
                               ((if lg then map pow10 ags else ags) ! (k - 1))) = Inr lo) \<and>
        py_int (np_mean2 ((if lg then map pow10 ags else ags) ! Suc k)
                         ((if lg then map pow10 ags else ags) ! k)) = Inr hi \<and>
        h ! k = q lo hi)"
proof (intro allI impI)
  fix k
  assume k: "Suc k < length ags"
  let ?ags = "if lg then map pow10 ags else ags"
  from h have l: "sf_hist_loop q ?ags 0 0 (replicate (length ?ags) (Fin 0)) = Inr h"
    by (simp add: sf_hist_weights_def Let_def)
  have len: "0 + (length ?ags - 1) \<le> length (replicate (length ?ags) (Fin 0))"
    by simp
  from k have k': "Suc k < length ?ags" by simp
  from sf_hist_loop_entries [OF l len] k' obtain lo hi where
    "if k = 0 then lo = 0 else py_int (np_mean2 (?ags ! k) (?ags ! (k - 1))) = Inr lo"
    "py_int (np_mean2 (?ags ! Suc k) (?ags ! k)) = Inr hi"
    "h ! (0 + k) = q lo hi"
    by blast
  then show "\<exists>lo hi.
        (if k = 0 then lo = 0 else py_int (np_mean2 (?ags ! k) (?ags ! (k - 1))) = Inr lo) \<and>
        py_int (np_mean2 (?ags ! Suc k) (?ags ! k)) = Inr hi \<and>
        h ! k = q lo hi"
    by (simp only: add_0) blast
qed

text \<open>On finite ages the loops raise nothing.\<close>

lemma sfzh_loop_total:
  "mets \<noteq> [] \<Longrightarrow> \<exists>w. sfzh_loop q zf mets (map Fin ags) ia mn z = Inr w"
proof (induction ags arbitrary: ia mn z)
  case Nil
  then show ?case by simp
next
  case (Cons age ags)
  show ?case
  proof (cases ags)
    case Nil
    then show ?thesis by simp
  next
    case c2: (Cons nxt rest)
    from nearest_index_total [OF Cons.prems] obtain iZ where
      n: "nearest_index mets (zf (Fin age)) = Inr iZ" by blast
    have m: "py_int (np_mean2 (Fin nxt) (Fin age))
               = Inr (if 0 \<le> (nxt + age) / 2 then \<lfloor>(nxt + age) / 2\<rfloor> else \<lceil>(nxt + age) / 2\<rceil>)"
      by (simp add: np_mean2_def)
    from Cons.IH [OF Cons.prems] show ?thesis
      unfolding c2 by (simp only: list.map sfzh_loop.simps m n sum.case)
  qed
qed

lemma sf_hist_loop_total:
  "\<exists>h'. sf_hist_loop q (map Fin ags) ia mn h = Inr h'"
proof (induction ags arbitrary: ia mn h)
  case Nil
  then show ?case by simp
next
  case (Cons age ags)
  show ?case
  proof (cases ags)
    case Nil
    then show ?thesis by simp
  next
    case c2: (Cons nxt rest)
    have m: "py_int (np_mean2 (Fin nxt) (Fin age))
               = Inr (if 0 \<le> (nxt + age) / 2 then \<lfloor>(nxt + age) / 2\<rfloor> else \<lceil>(nxt + age) / 2\<rceil>)"
      by (simp add: np_mean2_def)
    from Cons.IH show ?thesis
      unfolding c2 by (simp only: list.map sf_hist_loop.simps m sum.case)
  qed
qed

lemma sfzh_weights_total:
  "mets \<noteq> [] \<Longrightarrow> \<exists>w. sfzh_weights q (map Fin as) mets mh = Inr w"
proof -
  assume me: "mets \<noteq> []"
  let ?z = "np_zeros2 (length (map Fin as)) (length mets)"
  have p: "map pow10 (map Fin as) = map Fin (map ((powr) 10) as)" by simp
  have e: "sfzh_weights q (map Fin as) mets mh
             = (if dist_type mh = ''delta''
                then sfzh_loop q (Z mh) mets (map Fin (map ((powr) 10) as)) 0 0 ?z
                else Inr ?z)"
    by (simp only: sfzh_weights_def Let_def p)
  show ?thesis
  proof (cases "dist_type mh = ''delta''")
    case True
    then have "sfzh_weights q (map Fin as) mets mh
                 = sfzh_loop q (Z mh) mets (map Fin (map ((powr) 10) as)) 0 0 ?z"
      by (simp only: e simp_thms if_True)
    with sfzh_loop_total [OF me, of q "Z mh" "map ((powr) 10) as" 0 0 ?z] show ?thesis
      by simp
  next
    case False
    then show ?thesis by (simp only: e if_False) blast
  qed
qed

lemma sf_hist_weights_total:
  "\<exists>h. sf_hist_weights (map Fin as) q lg = Inr h"
proof -
  have p: "map pow10 (map Fin as) = map Fin (map ((powr) 10) as)" by simp
  show ?thesis
    unfolding sf_hist_weights_def Let_def using sf_hist_loop_total
    by (cases lg) (simp_all only: if_True if_False p)
qed

text \<open>
  Claim C10, as the code has it. For a delta-type metallicity history on a
  non-empty array of age bins, the loop of \<open>generate_sfzh\<close> runs over the
  consecutive pairs of ages: the weights have one row per age bin, and the
  row of every age bin but the last is zero except in the column nearest
  the metallicity at that age, which holds the integral from the truncated
  midpoint of the previous pair of ages (0 for the first bin) to the
  truncated midpoint of this age and the next. The last row stays zero.
  Whenever the weights sum to something other than zero and \<open>nan\<close> and the
  stellar mass is finite, the builder returns the normalised weights, whose
  last row is zero. The same holds for the one-dimensional history of
  \<open>generate_sf_hist\<close>, on the ages as given or, with \<open>log10\<close> set, on their
  powers of ten: one weight per age, each but the last the integral over
  the same interval, the last zero, and the last entry returned zero
  whenever the weights sum to something other than zero and \<open>nan\<close>. On
  finite ages the loops raise nothing, given a metallicity bin.
\<close>

theorem final_age_bin_zero_weight:
  "(dist_type mh = ''delta'' \<and> sfzh_weights q l10a mets mh = Inr w \<and> l10a \<noteq> [] \<longrightarrow>
      length (cells w) = length l10a \<and>
      (\<forall>k. Suc k < length l10a \<longrightarrow>
         (\<exists>lo hi iZ.
            (if k = 0 then lo = 0
             else py_int (np_mean2 (pow10 (l10a ! k)) (pow10 (l10a ! (k - 1)))) = Inr lo) \<and>
            py_int (np_mean2 (pow10 (l10a ! Suc k)) (pow10 (l10a ! k))) = Inr hi \<and>
            nearest_index mets (Z mh (pow10 (l10a ! k))) = Inr iZ \<and>
            cells w ! k = (replicate (length mets) (Fin 0))[iZ := q lo hi])) \<and>
      last (cells w) = replicate (length mets) (Fin 0) \<and>
      (np_sum2 w \<noteq> Fin 0 \<and> np_sum2 w \<noteq> NaN \<longrightarrow>
         (\<exists>s. generate_sfzh l10a mets q mh (Fin M) = Inr s \<and> sfzh s = normalise w (Fin M) \<and>
              last (cells (sfzh s)) = replicate (length mets) (Fin 0)))) \<and>
   (sf_hist_weights ags q lg = Inr h \<and> ags \<noteq> [] \<longrightarrow>
      length h = length ags \<and>
      (\<forall>k. Suc k < length ags \<longrightarrow>
         (\<exists>lo hi.
            (if k = 0 then lo = 0
             else py_int (np_mean2 ((if lg then map pow10 ags else ags) ! k)
                                   ((if lg then map pow10 ags else ags) ! (k - 1))) = Inr lo) \<and>
            py_int (np_mean2 ((if lg then map pow10 ags else ags) ! Suc k)
                             ((if lg then map pow10 ags else ags) ! k)) = Inr hi \<and>
            h ! k = q lo hi)) \<and>
      last h = Fin 0 \<and>
      (np_sum h \<noteq> Fin 0 \<and> np_sum h \<noteq> NaN \<longrightarrow>
         (\<exists>r. generate_sf_hist ags q lg = Inr r \<and> r = map (\<lambda>x. fdiv x (np_sum h)) h \<and>
              last r = Fin 0))) \<and>
   (mets \<noteq> [] \<longrightarrow> (\<exists>w. sfzh_weights q (map Fin as) mets mh = Inr w)) \<and>
   (\<exists>h. sf_hist_weights (map Fin as) q lg = Inr h)"
proof -
  have A: "length (cells w) = length l10a \<and>
      (\<forall>k. Suc k < length l10a \<longrightarrow>
         (\<exists>lo hi iZ.
            (if k = 0 then lo = 0
             else py_int (np_mean2 (pow10 (l10a ! k)) (pow10 (l10a ! (k - 1)))) = Inr lo) \<and>
            py_int (np_mean2 (pow10 (l10a ! Suc k)) (pow10 (l10a ! k))) = Inr hi \<and>
            nearest_index mets (Z mh (pow10 (l10a ! k))) = Inr iZ \<and>
            cells w ! k = (replicate (length mets) (Fin 0))[iZ := q lo hi])) \<and>
      last (cells w) = replicate (length mets) (Fin 0) \<and>
      (np_sum2 w \<noteq> Fin 0 \<and> np_sum2 w \<noteq> NaN \<longrightarrow>
         (\<exists>s. generate_sfzh l10a mets q mh (Fin M) = Inr s \<and> sfzh s = normalise w (Fin M) \<and>
              last (cells (sfzh s)) = replicate (length mets) (Fin 0)))"
    if d: "dist_type mh = ''delta''" and w: "sfzh_weights q l10a mets mh = Inr w"
      and ne: "l10a \<noteq> []"
  proof -
    from sfzh_weights_last_row [OF w ne] have
      len: "length (cells w) = length l10a" and
      lr: "last (cells w) = replicate (length mets) (Fin 0)"
      by simp_all
    have norm: "\<exists>s. generate_sfzh l10a mets q mh (Fin M) = Inr s \<and> sfzh s = normalise w (Fin M) \<and>
              last (cells (sfzh s)) = replicate (length mets) (Fin 0)"
      if t: "np_sum2 w \<noteq> Fin 0" "np_sum2 w \<noteq> NaN"
    proof -
      from t(1) w have me: "mets \<noteq> []"
        by (auto dest: sfzh_weights_no_mets)
      from Stars_init_ok [OF ne me] obtain s where
        s: "Stars_init l10a mets (normalise w (Fin M)) = Inr s" by blast
      from Stars_init_Inr [OF s] have ds: "sfzh s = normalise w (Fin M)" by simp
      have g: "generate_sfzh l10a mets q mh (Fin M) = Inr s"
        by (simp add: generate_sfzh_def w s)
      from len ne have cne: "cells w \<noteq> []" by auto
      have "last (cells (sfzh s))
              = map (\<lambda>x. fmul (fdiv x (np_sum2 w)) (Fin M)) (last (cells w))"
        using cne by (simp add: ds cells_normalise last_map)
      also have "\<dots> = replicate (length mets) (Fin 0)"
        using t by (simp add: lr fdiv_zero)
      finally show ?thesis using g ds by blast
    qed
    from len sfzh_weights_rows [OF d w] lr norm show ?thesis by blast
  qed
  have B: "length h = length ags \<and>
      (\<forall>k. Suc k < length ags \<longrightarrow>
         (\<exists>lo hi.
            (if k = 0 then lo = 0
             else py_int (np_mean2 ((if lg then map pow10 ags else ags) ! k)
                                   ((if lg then map pow10 ags else ags) ! (k - 1))) = Inr lo) \<and>
            py_int (np_mean2 ((if lg then map pow10 ags else ags) ! Suc k)
                             ((if lg then map pow10 ags else ags) ! k)) = Inr hi \<and>
            h ! k = q lo hi)) \<and>
      last h = Fin 0 \<and>
      (np_sum h \<noteq> Fin 0 \<and> np_sum h \<noteq> NaN \<longrightarrow>
         (\<exists>r. generate_sf_hist ags q lg = Inr r \<and> r = map (\<lambda>x. fdiv x (np_sum h)) h \<and>
              last r = Fin 0))"
    if h: "sf_hist_weights ags q lg = Inr h" and ne: "ags \<noteq> []"
  proof -
    from sf_hist_weights_last [OF h ne] have
      len: "length h = length ags" and lh: "last h = Fin 0" by simp_all
    from len ne have hne: "h \<noteq> []" by auto
    have norm: "\<exists>r. generate_sf_hist ags q lg = Inr r \<and> r = map (\<lambda>x. fdiv x (np_sum h)) h \<and>
              last r = Fin 0"
      if t: "np_sum h \<noteq> Fin 0" "np_sum h \<noteq> NaN"
    proof -
      have g: "generate_sf_hist ags q lg = Inr (map (\<lambda>x. fdiv x (np_sum h)) h)"
        by (simp add: generate_sf_hist_def h)
      have "last (map (\<lambda>x. fdiv x (np_sum h)) h) = Fin 0"
        using hne t by (simp add: last_map lh fdiv_zero)
      with g show ?thesis by blast
    qed
    from len sf_hist_weights_entries [OF h] lh norm show ?thesis by blast
  qed
  have C: "mets \<noteq> [] \<longrightarrow> (\<exists>w. sfzh_weights q (map Fin as) mets mh = Inr w)"
    using sfzh_weights_total [of mets q as mh] by blast
  have D: "\<exists>h. sf_hist_weights (map Fin as) q lg = Inr h"
    by (rule sf_hist_weights_total)
  from A B C D show ?thesis by blast
qed

theorem final_age_bin_zero_weight_witness:
  "length (cells \<lparr>nrows = 3, ncols = 1, cells = [[Fin 5], [Fin 50], [Fin 0]]\<rparr>)
     = length [Fin 0, Fin 1, Fin 2] \<and>
   (\<exists>lo hi iZ.
      py_int (np_mean2 (pow10 (Fin 1)) (pow10 (Fin 0))) = Inr lo \<and>
      py_int (np_mean2 (pow10 (Fin 2)) (pow10 (Fin 1))) = Inr hi \<and>
      nearest_index [Fin (1 / 50)] (Fin (1 / 50)) = Inr iZ \<and>
      cells \<lparr>nrows = 3, ncols = 1, cells = [[Fin 5], [Fin 50], [Fin 0]]\<rparr> ! 1
        = (replicate (length [Fin (1 / 50)]) (Fin 0))[iZ := Fin (real_of_int (hi - lo))]) \<and>
   last (cells \<lparr>nrows = 3, ncols = 1, cells = [[Fin 5], [Fin 50], [Fin 0]]\<rparr>)
     = replicate (length [Fin (1 / 50)]) (Fin 0) \<and>
   (\<exists>s. generate_sfzh [Fin 0, Fin 1, Fin 2] [Fin (1 / 50)]
           (\<lambda>lo hi. Fin (real_of_int (hi - lo)))
           \<lparr>dist_type = ''delta'', Z = (\<lambda>age. Fin (1 / 50))\<rparr> (Fin 3) = Inr s \<and>
        sfzh s = normalise
                   \<lparr>nrows = 3, ncols = 1, cells = [[Fin 5], [Fin 50], [Fin 0]]\<rparr> (Fin 3) \<and>
        last (cells (sfzh s)) = replicate (length [Fin (1 / 50)]) (Fin 0)) \<and>
   length [Fin 5, Fin 50, Fin 0] = length [Fin 0, Fin 1, Fin 2] \<and>
   (\<exists>lo hi.
      py_int (np_mean2 (pow10 (Fin 1)) (pow10 (Fin 0))) = Inr lo \<and>
      py_int (np_mean2 (pow10 (Fin 2)) (pow10 (Fin 1))) = Inr hi \<and>
      [Fin 5, Fin 50, Fin 0] ! 1 = Fin (real_of_int (hi - lo))) \<and>
   last [Fin 5, Fin 50, Fin 0] = Fin 0 \<and>
   (\<exists>r. generate_sf_hist [Fin 0, Fin 1, Fin 2] (\<lambda>lo hi. Fin (real_of_int (hi - lo))) True
          = Inr r \<and>
        r = map (\<lambda>x. fdiv x (np_sum [Fin 5, Fin 50, Fin 0])) [Fin 5, Fin 50, Fin 0] \<and>
        last r = Fin 0) \<and>
   (\<exists>w. sfzh_weights (\<lambda>lo hi. Fin (real_of_int (hi - lo))) (map Fin [0, 1, 2]) [Fin (1 / 50)]
          \<lparr>dist_type = ''delta'', Z = (\<lambda>age. Fin (1 / 50))\<rparr> = Inr w)"
proof -
  let ?q = "\<lambda>lo hi. Fin (real_of_int (hi - lo))"
  let ?mh = "\<lparr>dist_type = ''delta'', Z = (\<lambda>age. Fin (1 / 50))\<rparr>"
  let ?w = "\<lparr>nrows = 3, ncols = 1, cells = [[Fin 5], [Fin 50], [Fin 0]]\<rparr>"
  have d: "dist_type ?mh = ''delta''" by simp
  have w: "sfzh_weights ?q [Fin 0, Fin 1, Fin 2] [Fin (1 / 50)] ?mh = Inr ?w"
    by (simp add: sfzh_weights_def np_zeros2_def np_mean2_def nearest_index_def fsub_def set2_def)
  have ne: "[Fin 0, Fin 1, Fin 2] \<noteq> []" by simp
  have h: "sf_hist_weights [Fin 0, Fin 1, Fin 2] ?q True = Inr [Fin 5, Fin 50, Fin 0]"
    by (simp add: sf_hist_weights_def np_mean2_def)
  have me: "[Fin (1 / 50)] \<noteq> []" by simp
  have t: "np_sum2 ?w \<noteq> Fin 0 \<and> np_sum2 ?w \<noteq> NaN" by (simp add: np_sum2_def)
  have t': "np_sum [Fin 5, Fin 50, Fin 0] \<noteq> Fin 0 \<and> np_sum [Fin 5, Fin 50, Fin 0] \<noteq> NaN"
    by simp
  from final_age_bin_zero_weight
         [where mh = ?mh and q = ?q and ?l10a = "[Fin 0, Fin 1, Fin 2]"
            and mets = "[Fin (1 / 50)]" and w = ?w and M = 3
            and ags = "[Fin 0, Fin 1, Fin 2]" and lg = True
            and h = "[Fin 5, Fin 50, Fin 0]" and as = "[0, 1, 2]"]
       d w ne h me t t'
  have all:
    "(length (cells \<lparr>nrows = 3, ncols = 1, cells = [[Fin 5], [Fin 50], [Fin 0]]\<rparr>)
          = length [Fin 0, Fin 1, Fin 2] \<and>
        (\<forall>k. Suc k < length [Fin 0, Fin 1, Fin 2] \<longrightarrow>
           (\<exists>lo hi iZ.
              (if k = 0 then lo = 0
               else py_int (np_mean2 (pow10 ([Fin 0, Fin 1, Fin 2] ! k))
                      (pow10 ([Fin 0, Fin 1, Fin 2] ! (k - 1)))) = Inr lo) \<and>
              py_int (np_mean2 (pow10 ([Fin 0, Fin 1, Fin 2] ! Suc k))
                (pow10 ([Fin 0, Fin 1, Fin 2] ! k))) = Inr hi \<and>
              nearest_index [Fin (1 / 50)] (Fin (1 / 50)) = Inr iZ \<and>
              cells \<lparr>nrows = 3, ncols = 1, cells = [[Fin 5], [Fin 50], [Fin 0]]\<rparr> ! k
                = (replicate (length [Fin (1 / 50)]) (Fin 0))[iZ := Fin (real_of_int (hi - lo))])) \<and>
        last (cells \<lparr>nrows = 3, ncols = 1, cells = [[Fin 5], [Fin 50], [Fin 0]]\<rparr>)
          = replicate (length [Fin (1 / 50)]) (Fin 0) \<and>
        (\<exists>s. generate_sfzh [Fin 0, Fin 1, Fin 2] [Fin (1 / 50)]
                (\<lambda>lo hi. Fin (real_of_int (hi - lo)))
                \<lparr>dist_type = ''delta'', Z = (\<lambda>age. Fin (1 / 50))\<rparr> (Fin 3) = Inr s \<and>
             sfzh s = normalise
                        \<lparr>nrows = 3, ncols = 1, cells = [[Fin 5], [Fin 50], [Fin 0]]\<rparr> (Fin 3) \<and>
             last (cells (sfzh s)) = replicate (length [Fin (1 / 50)]) (Fin 0))) \<and>
       (length [Fin 5, Fin 50, Fin 0] = length [Fin 0, Fin 1, Fin 2] \<and>
        (\<forall>k. Suc k < length [Fin 0, Fin 1, Fin 2] \<longrightarrow>
           (\<exists>lo hi.
              (if k = 0 then lo = 0
               else py_int (np_mean2 (map pow10 [Fin 0, Fin 1, Fin 2] ! k)
                      (map pow10 [Fin 0, Fin 1, Fin 2] ! (k - 1))) = Inr lo) \<and>
              py_int (np_mean2 (map pow10 [Fin 0, Fin 1, Fin 2] ! Suc k)
                (map pow10 [Fin 0, Fin 1, Fin 2] ! k)) = Inr hi \<and>
              [Fin 5, Fin 50, Fin 0] ! k = Fin (real_of_int (hi - lo)))) \<and>
        last [Fin 5, Fin 50, Fin 0] = Fin 0 \<and>
        (\<exists>r. generate_sf_hist [Fin 0, Fin 1, Fin 2] (\<lambda>lo hi. Fin (real_of_int (hi - lo))) True
               = Inr r \<and>
             r = map (\<lambda>x. fdiv x (np_sum [Fin 5, Fin 50, Fin 0])) [Fin 5, Fin 50, Fin 0] \<and>
             last r = Fin 0)) \<and>
       (\<exists>w. sfzh_weights (\<lambda>lo hi. Fin (real_of_int (hi - lo))) (map Fin [0, 1, 2]) [Fin (1 / 50)]
              \<lparr>dist_type = ''delta'', Z = (\<lambda>age. Fin (1 / 50))\<rparr> = Inr w)"
    by (simp only: if_True ZDist.simps) blast
  from all have
    r2: "\<forall>k. Suc k < length [Fin 0, Fin 1, Fin 2] \<longrightarrow>
       (\<exists>lo hi iZ.
          (if k = 0 then lo = 0
           else py_int (np_mean2 (pow10 ([Fin 0, Fin 1, Fin 2] ! k))
                  (pow10 ([Fin 0, Fin 1, Fin 2] ! (k - 1)))) = Inr lo) \<and>
          py_int (np_mean2 (pow10 ([Fin 0, Fin 1, Fin 2] ! Suc k))
            (pow10 ([Fin 0, Fin 1, Fin 2] ! k))) = Inr hi \<and>
          nearest_index [Fin (1 / 50)] (Fin (1 / 50)) = Inr iZ \<and>
          cells \<lparr>nrows = 3, ncols = 1, cells = [[Fin 5], [Fin 50], [Fin 0]]\<rparr> ! k
            = (replicate (length [Fin (1 / 50)]) (Fin 0))[iZ := Fin (real_of_int (hi - lo))])"
    and
    r1: "\<forall>k. Suc k < length [Fin 0, Fin 1, Fin 2] \<longrightarrow>
       (\<exists>lo hi.
          (if k = 0 then lo = 0
           else py_int (np_mean2 (map pow10 [Fin 0, Fin 1, Fin 2] ! k)
                  (map pow10 [Fin 0, Fin 1, Fin 2] ! (k - 1))) = Inr lo) \<and>
          py_int (np_mean2 (map pow10 [Fin 0, Fin 1, Fin 2] ! Suc k)
            (map pow10 [Fin 0, Fin 1, Fin 2] ! k)) = Inr hi \<and>
          [Fin 5, Fin 50, Fin 0] ! k = Fin (real_of_int (hi - lo)))"
    by blast+
  have k2: "\<exists>lo hi iZ.
      py_int (np_mean2 (pow10 (Fin 1)) (pow10 (Fin 0))) = Inr lo \<and>
      py_int (np_mean2 (pow10 (Fin 2)) (pow10 (Fin 1))) = Inr hi \<and>
      nearest_index [Fin (1 / 50)] (Fin (1 / 50)) = Inr iZ \<and>
      cells \<lparr>nrows = 3, ncols = 1, cells = [[Fin 5], [Fin 50], [Fin 0]]\<rparr> ! 1
        = (replicate (length [Fin (1 / 50)]) (Fin 0))[iZ := Fin (real_of_int (hi - lo))]"
    using r2 [rule_format, of 1] by simp
  have k1: "\<exists>lo hi.
      py_int (np_mean2 (pow10 (Fin 1)) (pow10 (Fin 0))) = Inr lo \<and>
      py_int (np_mean2 (pow10 (Fin 2)) (pow10 (Fin 1))) = Inr hi \<and>
      [Fin 5, Fin 50, Fin 0] ! 1 = Fin (real_of_int (hi - lo))"
    using r1 [rule_format, of 1] by simp
  from all k2 k1 show ?thesis by blast
qed

text \<open>
  The claim as written fails when the weights sum to zero: the last row is
  then \<open>nan\<close>, as every other. Here the star formation rate is 1 from the
  age of \<open>10\<^sup>9\<close> years on and 0 before, on the bins \<open>10\<^sup>6\<close> and \<open>10\<^sup>7\<close> years.
\<close>

theorem final_age_bin_zero_weight_counterexample:
  "\<not> isl (generate_sfzh [Fin 6, Fin 7] [Fin (1 / 100), Fin (1 / 50)]
            (\<lambda>lo hi. Fin (real_of_int (max 0 (hi - 1000000000) - max 0 (lo - 1000000000))))
            \<lparr>dist_type = ''delta'', Z = (\<lambda>age. Fin (1 / 50))\<rparr> (Fin 1)) \<and>
   last (cells (sfzh (projr (generate_sfzh [Fin 6, Fin 7] [Fin (1 / 100), Fin (1 / 50)]
            (\<lambda>lo hi. Fin (real_of_int (max 0 (hi - 1000000000) - max 0 (lo - 1000000000))))
            \<lparr>dist_type = ''delta'', Z = (\<lambda>age. Fin (1 / 50))\<rparr> (Fin 1))))) = [NaN, NaN] \<and>
   generate_sf_hist [Fin 6, Fin 7]
     (\<lambda>lo hi. Fin (real_of_int (max 0 (hi - 1000000000) - max 0 (lo - 1000000000)))) True
     = Inr [NaN, NaN]"
proof -
  have b: "generate_sfzh [Fin 6, Fin 7] [Fin (1 / 100), Fin (1 / 50)]
            (\<lambda>lo hi. Fin (real_of_int (max 0 (hi - 1000000000) - max 0 (lo - 1000000000))))
            \<lparr>dist_type = ''delta'', Z = (\<lambda>age. Fin (1 / 50))\<rparr> (Fin 1)
           = Stars_init [Fin 6, Fin 7] [Fin (1 / 100), Fin (1 / 50)]
               \<lparr>nrows = Suc (Suc 0), ncols = Suc (Suc 0), cells = [[NaN, NaN], [NaN, NaN]]\<rparr>"
    by (simp add: generate_sfzh_def sfzh_weights_def np_zeros2_def np_mean2_def nearest_index_def
        fsub_def set2_def normalise_def map_ndarray2_def np_sum2_def)
  have c: "generate_sf_hist [Fin 6, Fin 7]
     (\<lambda>lo hi. Fin (real_of_int (max 0 (hi - 1000000000) - max 0 (lo - 1000000000)))) True
     = Inr [NaN, NaN]"
    by (simp add: generate_sf_hist_def sf_hist_weights_def np_mean2_def)
  show ?thesis
    unfolding b c by (simp add: Stars_init_def Let_def)
qed

end
